theory Spec2Isabelle
  imports Main
begin

section \<open>python-args: a shallow embedding of \<^verbatim>\<open>arg/core.py\<close>\<close>

text \<open>
  The library decorates a target function with a chain of nodes (validators, contexts,
  defaults, parametrize).  Each node evaluates lazy values against an argument mapping and
  hands the mapping to the next node; the innermost node binds the mapping to the target's
  signature and calls it.  A thread-local slot holds the \<^verbatim>\<open>Call\<close> object of the running
  top-level invocation.

  Modelling decisions.
  \<^item> Python values are the datatype \<open>pyval\<close>; what user objects do (attribute lookup, being
    called, being iterated, being entered and left as context managers) is a parameter, the
    record \<open>world\<close>.
  \<^item> Exceptions are values of \<open>exc\<close>; a computation returns \<open>exc + 'a\<close> (\<open>Inl\<close> is a raise).
  \<^item> An argument mapping (a keyword dictionary) is a map \<open>string \<rightharpoonup> pyval\<close>.  \<^verbatim>\<open>load\<close>
    receives it as \<^verbatim>\<open>**call_args\<close> beside its own parameter \<^verbatim>\<open>lazy\<close> and hands it to
    \<^verbatim>\<open>lazy._load(**call_args)\<close>, whose first parameter is \<^verbatim>\<open>self\<close>: a mapping with the key
    \<^verbatim>\<open>lazy\<close> or \<^verbatim>\<open>self\<close> is a \<^verbatim>\<open>TypeError\<close> there, which \<open>load\<close> models.  The keyword
    arguments of a top-level call are a mapping that Python lets the caller pass.
  \<^item> A user function has only positional-or-keyword parameters, each with an optional
    default; it may read the current \<^verbatim>\<open>Call\<close> but is otherwise a function of its arguments.
  \<^item> The thread-local slot \<^verbatim>\<open>_current_call.val\<close> is a \<open>call option\<close>, threaded through every
    operation that can change it.
  \<^item> The properties \<^verbatim>\<open>Args.partial\<close> and \<^verbatim>\<open>Args.pre_func\<close>, which wrap the chain in a
    context that sets a mode flag, and the combinator \<^verbatim>\<open>s\<close> are not modelled; the mode
    flags are fields of the \<^verbatim>\<open>Call\<close> that every operation is given.
\<close>

subsection \<open>Values and exceptions\<close>

datatype pyval =
    PNone
  | PBool bool
  | PInt int
  | PStr string
  | PList "pyval list"
  | PMethod pyval string
  | PObj nat

text \<open>Python truthiness, as used by \<^verbatim>\<open>if not call().is_partial\<close>.\<close>

fun truthy :: "pyval \<Rightarrow> bool" where
  "truthy PNone = False"
| "truthy (PBool b) = b"
| "truthy (PInt i) = (i \<noteq> 0)"
| "truthy (PStr s) = (s \<noteq> [])"
| "truthy (PList xs) = (xs \<noteq> [])"
| "truthy (PMethod v n) = True"
| "truthy (PObj k) = True"

type_synonym kwargs = "string \<rightharpoonup> pyval"

text \<open>The three ways in which \<^verbatim>\<open>inspect.Signature.bind\<close> fails on such a signature.\<close>

datatype bind_reason =
    MissingRequired string
  | TooManyPositional
  | MultipleValues string

text \<open>The class of a lazy object, which is what its \<^verbatim>\<open>repr\<close> shows.\<close>

datatype lazy_class = ClsFunc | ClsVal | ClsFirst | ClsInit

text \<open>
  What a \<^verbatim>\<open>BindError\<close> message carries: \<open>CannotBind args kwargs f reason\<close> is the message of
  \<^verbatim>\<open>_parse_args\<close>, \<open>NothingInFirst kwargs candidates\<close> that of \<^verbatim>\<open>first._call\<close>, and
  \<open>OtherBind\<close> a \<^verbatim>\<open>BindError\<close> raised by user code.
\<close>

datatype bind_failure =
    CannotBind "pyval list" kwargs string bind_reason
  | NothingInFirst kwargs "lazy_class list"
  | OtherBind string

datatype exc =
    BindError bind_failure
  | AssertionError string
  | AttributeError string
  | TypeError string
  | Exception string

fun is_BindError :: "exc + 'a \<Rightarrow> bool" where
  "is_BindError (Inl (BindError b)) = True"
| "is_BindError _ = False"

subsection \<open>The Call object\<close>

record call =
  is_partial :: pyval
  is_pre_func :: pyval
  parametrize_arg :: pyval
  parametrize_arg_val :: pyval
  parametrize_arg_index :: pyval
  parametrize_arg_vals :: pyval

text \<open>\<^verbatim>\<open>Call.__init__\<close>.\<close>

definition Call_init :: call where
  "Call_init = \<lparr> is_partial = PBool False, is_pre_func = PBool False,
     parametrize_arg = PNone, parametrize_arg_val = PNone,
     parametrize_arg_index = PNone, parametrize_arg_vals = PNone \<rparr>"

text \<open>
  \<^verbatim>\<open>getattr(self, key)\<close> and \<^verbatim>\<open>setattr(self, key, value)\<close> on a \<^verbatim>\<open>Call\<close>.  Only the six
  fields that \<^verbatim>\<open>__init__\<close> sets are modelled: any other name is a missing attribute here.
  (A \<^verbatim>\<open>Call\<close> also has its method \<^verbatim>\<open>set\<close> and the attributes of every object; no
  property below is about such a name.)
\<close>

definition call_getattr :: "call \<Rightarrow> string \<Rightarrow> exc + pyval" where
  "call_getattr c key =
     (if key = ''is_partial'' then Inr (is_partial c)
      else if key = ''is_pre_func'' then Inr (is_pre_func c)
      else if key = ''parametrize_arg'' then Inr (parametrize_arg c)
      else if key = ''parametrize_arg_val'' then Inr (parametrize_arg_val c)
      else if key = ''parametrize_arg_index'' then Inr (parametrize_arg_index c)
      else if key = ''parametrize_arg_vals'' then Inr (parametrize_arg_vals c)
      else Inl (AttributeError key))"

definition call_setattr :: "call \<Rightarrow> string \<Rightarrow> pyval \<Rightarrow> call" where
  "call_setattr c key v =
     (if key = ''is_partial'' then c\<lparr>is_partial := v\<rparr>
      else if key = ''is_pre_func'' then c\<lparr>is_pre_func := v\<rparr>
      else if key = ''parametrize_arg'' then c\<lparr>parametrize_arg := v\<rparr>
      else if key = ''parametrize_arg_val'' then c\<lparr>parametrize_arg_val := v\<rparr>
      else if key = ''parametrize_arg_index'' then c\<lparr>parametrize_arg_index := v\<rparr>
      else if key = ''parametrize_arg_vals'' then c\<lparr>parametrize_arg_vals := v\<rparr>
      else c)"

text \<open>\<^verbatim>\<open>orig = {key: getattr(self, key) for key in kwargs}\<close>.\<close>

fun snapshot :: "call \<Rightarrow> (string \<times> pyval) list \<Rightarrow> exc + (string \<times> pyval) list" where
  "snapshot c [] = Inr []"
| "snapshot c ((key, v) # kws) =
     (case call_getattr c key of
        Inl e \<Rightarrow> Inl e
      | Inr old \<Rightarrow> (case snapshot c kws of Inl e \<Rightarrow> Inl e | Inr orig \<Rightarrow> Inr ((key, old) # orig)))"

text \<open>\<^verbatim>\<open>for key, value in items: setattr(self, key, value)\<close>.\<close>

fun setattrs :: "call \<Rightarrow> (string \<times> pyval) list \<Rightarrow> call" where
  "setattrs c [] = c"
| "setattrs c ((key, v) # kws) = setattrs (call_setattr c key v) kws"

text \<open>
  \<^verbatim>\<open>Call.set\<close> returns a generator-based context manager.  Its generator runs in two parts:
  \<open>temporary_set_enter\<close> is the code before \<^verbatim>\<open>yield\<close> (take the snapshot, apply the
  overrides), \<open>temporary_set_resume\<close> the code after it (write the snapshot back).
\<close>

definition temporary_set_enter ::
  "call \<Rightarrow> (string \<times> pyval) list \<Rightarrow> exc + (call \<times> (string \<times> pyval) list)" where
  "temporary_set_enter c kws =
     (case snapshot c kws of
        Inl e \<Rightarrow> Inl e
      | Inr orig \<Rightarrow> Inr (setattrs c kws, orig))"

definition temporary_set_resume :: "call \<Rightarrow> (string \<times> pyval) list \<Rightarrow> call" where
  "temporary_set_resume c orig = setattrs c orig"

text \<open>
  \<^verbatim>\<open>with self.set(**kwargs): body\<close>, where \<open>c\<close> is the object \<^verbatim>\<open>self\<close>; the body runs on
  the thread-local slot that holds it.  \<^verbatim>\<open>contextlib.contextmanager\<close> resumes the generator
  after \<^verbatim>\<open>yield\<close> when the body returns; when the body raises, it throws the exception into
  the generator at the \<^verbatim>\<open>yield\<close>.  \<^verbatim>\<open>temporary_set\<close> has no \<^verbatim>\<open>try\<close> around its
  \<^verbatim>\<open>yield\<close>, so the exception leaves the generator at once and the code after the
  \<^verbatim>\<open>yield\<close> does not run.
\<close>

definition with_Call_set ::
  "call \<Rightarrow> (string \<times> pyval) list \<Rightarrow> (call option \<Rightarrow> (exc + 'a) \<times> call option)
     \<Rightarrow> (exc + 'a) \<times> call option" where
  "with_Call_set c kws body =
     (case temporary_set_enter c kws of
        Inl e \<Rightarrow> (Inl e, Some c)
      | Inr (c1, orig) \<Rightarrow>
          (case body (Some c1) of
             (Inr r, s2) \<Rightarrow> (Inr r, map_option (\<lambda>c2. temporary_set_resume c2 orig) s2)
           | (Inl e, s2) \<Rightarrow> (Inl e, s2)))"

subsection \<open>The behaviour of user objects\<close>

text \<open>
  What the library does with a value it did not create is to look up an attribute on it, call
  it, iterate over it, and enter and leave it as a context manager.  These are the fields of
  \<open>world\<close>.  A context manager's \<^verbatim>\<open>__enter__\<close> and \<^verbatim>\<open>__exit__\<close> may change the
  thread-local slot (as the one returned by \<^verbatim>\<open>Call.set\<close> does); \<^verbatim>\<open>__exit__\<close> receives the
  exception in flight, if any, and returns whether it suppresses it.
\<close>

record world =
  py_getattr :: "pyval \<Rightarrow> string \<Rightarrow> exc + pyval"
  py_call :: "pyval \<Rightarrow> pyval list \<Rightarrow> (string \<times> pyval) list \<Rightarrow> exc + pyval"
  py_iter :: "pyval \<Rightarrow> exc + pyval list"
  cm_enter :: "pyval \<Rightarrow> call option \<Rightarrow> (exc + pyval) \<times> call option"
  cm_exit :: "pyval \<Rightarrow> exc option \<Rightarrow> call option \<Rightarrow> (exc + bool) \<times> call option"

subsection \<open>Lazy: recording and replaying a call chain\<close>

text \<open>
  An entry of \<^verbatim>\<open>_call_chain\<close> is the triple \<^verbatim>\<open>(name, args, kwargs)\<close>, each component
  possibly \<^verbatim>\<open>None\<close>.
\<close>

type_synonym step = "string option \<times> pyval list option \<times> (string \<times> pyval) list option"

text \<open>\<^verbatim>\<open>name.startswith('_')\<close>.\<close>

fun startswith_underscore :: "string \<Rightarrow> bool" where
  "startswith_underscore [] = False"
| "startswith_underscore (ch # rest) = (ch = CHR ''_'')"

text \<open>
  \<^verbatim>\<open>Lazy.__getattribute__\<close>.  A name that starts with an underscore is looked up on the
  object itself and nothing is recorded: the result is not the builder, which is \<open>None\<close>
  here.  Any other name appends a step and returns the builder.
\<close>

definition Lazy_getattribute :: "step list \<Rightarrow> string \<Rightarrow> step list option" where
  "Lazy_getattribute chain name =
     (if startswith_underscore name then None
      else Some (chain @ [(Some name, None, None)]))"

text \<open>\<^verbatim>\<open>Lazy.__call__\<close>.\<close>

definition Lazy_dunder_call ::
  "step list \<Rightarrow> pyval list \<Rightarrow> (string \<times> pyval) list \<Rightarrow> step list" where
  "Lazy_dunder_call chain args kws =
     (if chain \<noteq> [] then chain[length chain - 1 := (fst (last chain), Some args, Some kws)]
      else chain @ [(None, Some args, Some kws)])"

text \<open>The loop of \<^verbatim>\<open>Lazy._load\<close> over the recorded steps, from the value \<open>v\<close>.\<close>

fun replay :: "world \<Rightarrow> pyval \<Rightarrow> step list \<Rightarrow> exc + pyval" where
  "replay W v [] = Inr v"
| "replay W v ((None, args, kws) # rest) =
     (case py_call W v [] [] of
        Inl e \<Rightarrow> Inl e
      | Inr v' \<Rightarrow> replay W v' rest)"
| "replay W v ((Some name, args, kws) # rest) =
     (case py_getattr W v name of
        Inl e \<Rightarrow> Inl e
      | Inr a \<Rightarrow>
          if (args, kws) \<noteq> (None, None) then
            (case (args, kws) of
               (Some as, Some ks) \<Rightarrow>
                 (case py_call W a as ks of
                    Inl e \<Rightarrow> Inl e
                  | Inr v' \<Rightarrow> replay W v' rest)
             | _ \<Rightarrow> Inl (TypeError ''argument after * must be an iterable''))
          else replay W a rest)"

text \<open>
  The operations a client performs on a builder, and what the same operations do when they
  are performed on a value directly.
\<close>

datatype op = Attr string | Invoke "pyval list" "(string \<times> pyval) list"

fun record_ops :: "step list \<Rightarrow> op list \<Rightarrow> step list option" where
  "record_ops chain [] = Some chain"
| "record_ops chain (Attr name # ops) =
     (case Lazy_getattribute chain name of
        None \<Rightarrow> None
      | Some chain' \<Rightarrow> record_ops chain' ops)"
| "record_ops chain (Invoke args kws # ops) = record_ops (Lazy_dunder_call chain args kws) ops"

fun perform :: "world \<Rightarrow> pyval \<Rightarrow> op list \<Rightarrow> exc + pyval" where
  "perform W v [] = Inr v"
| "perform W v (Attr name # ops) =
     (case py_getattr W v name of
        Inl e \<Rightarrow> Inl e
      | Inr a \<Rightarrow> perform W a ops)"
| "perform W v (Invoke args kws # ops) =
     (case py_call W v args kws of
        Inl e \<Rightarrow> Inl e
      | Inr v' \<Rightarrow> perform W v' ops)"

text \<open>
  Sequences in which every invocation comes directly after a recorded attribute access
  (\<open>single_calls\<close>), possibly after one leading invocation without arguments
  (\<open>replayable\<close>).
\<close>

fun single_calls :: "op list \<Rightarrow> bool" where
  "single_calls [] = True"
| "single_calls (Attr name # Invoke args kws # ops) =
     (\<not> startswith_underscore name \<and> single_calls ops)"
| "single_calls (Attr name # ops) = (\<not> startswith_underscore name \<and> single_calls ops)"
| "single_calls (Invoke args kws # ops) = False"

fun replayable :: "op list \<Rightarrow> bool" where
  "replayable (Invoke [] [] # ops) = single_calls ops"
| "replayable ops = single_calls ops"

text \<open>The steps that such a sequence records.\<close>

fun steps_of :: "op list \<Rightarrow> step list" where
  "steps_of [] = []"
| "steps_of (Attr name # Invoke args kws # ops) = (Some name, Some args, Some kws) # steps_of ops"
| "steps_of (Attr name # ops) = (Some name, None, None) # steps_of ops"
| "steps_of (Invoke args kws # ops) = (None, Some args, Some kws) # steps_of ops"

text \<open>
  A world for examples: an attribute of any value is its bound method of that name, and a
  call returns the list of positional arguments it received, after the method name if the
  callee is a bound method.
\<close>

definition tracing_world :: world where
  "tracing_world =
     \<lparr> py_getattr = (\<lambda>v name. Inr (PMethod v name)),
       py_call = (\<lambda>f args kws. case f of
                    PMethod v name \<Rightarrow> Inr (PList (PStr name # args))
                  | _ \<Rightarrow> Inr (PList args)),
       py_iter = (\<lambda>v. case v of PList xs \<Rightarrow> Inr xs | _ \<Rightarrow> Inl (TypeError ''not iterable'')),
       cm_enter = (\<lambda>v s. (Inr PNone, s)),
       cm_exit = (\<lambda>v e s. (Inr False, s)) \<rparr>"

subsection \<open>User functions and signature binding\<close>

text \<open>
  A plain Python callable: its name, its parameters in declaration order, each with its
  default if it has one, and its body.  The body receives the thread-local slot (it may call
  \<^verbatim>\<open>arg.call()\<close>) and its arguments by name.
\<close>

record pyfunc =
  fn_name :: string
  fn_params :: "(string \<times> pyval option) list"
  fn_body :: "call option \<Rightarrow> kwargs \<Rightarrow> exc + pyval"

text \<open>
  \<^verbatim>\<open>inspect.Signature.bind\<close> and \<^verbatim>\<open>bind_partial\<close>.  The first loop gives the positional
  arguments to the parameters from the left; the second takes each remaining parameter from
  the keyword arguments.  A parameter without a value and without a default is an error
  unless the binding is partial.
\<close>

fun bind_positional ::
  "(string \<times> pyval option) list \<Rightarrow> pyval list \<Rightarrow> kwargs \<Rightarrow> kwargs
     \<Rightarrow> bind_reason + ((string \<times> pyval option) list \<times> kwargs)" where
  "bind_positional ps [] kws acc = Inr (ps, acc)"
| "bind_positional [] (a # args) kws acc = Inl TooManyPositional"
| "bind_positional ((name, dflt) # ps) (a # args) kws acc =
     (if kws name \<noteq> None then Inl (MultipleValues name)
      else bind_positional ps args kws (acc(name \<mapsto> a)))"

fun bind_keywords ::
  "bool \<Rightarrow> (string \<times> pyval option) list \<Rightarrow> kwargs \<Rightarrow> kwargs \<Rightarrow> bind_reason + kwargs" where
  "bind_keywords partial [] kws acc = Inr acc"
| "bind_keywords partial ((name, dflt) # ps) kws acc =
     (case kws name of
        Some v \<Rightarrow> bind_keywords partial ps kws (acc(name \<mapsto> v))
      | None \<Rightarrow>
          if \<not> partial \<and> dflt = None then Inl (MissingRequired name)
          else bind_keywords partial ps kws acc)"

definition sig_bind ::
  "(string \<times> pyval option) list \<Rightarrow> bool \<Rightarrow> pyval list \<Rightarrow> kwargs \<Rightarrow> bind_reason + kwargs" where
  "sig_bind ps partial args kws =
     (case bind_positional ps args kws Map.empty of
        Inl r \<Rightarrow> Inl r
      | Inr (rest, acc) \<Rightarrow> bind_keywords partial rest kws acc)"

text \<open>\<^verbatim>\<open>BoundArguments.apply_defaults\<close>.\<close>

fun apply_defaults :: "(string \<times> pyval option) list \<Rightarrow> kwargs \<Rightarrow> kwargs" where
  "apply_defaults [] acc = acc"
| "apply_defaults ((name, dflt) # ps) acc =
     (case acc name of
        Some v \<Rightarrow> apply_defaults ps acc
      | None \<Rightarrow>
          (case dflt of
             Some d \<Rightarrow> apply_defaults ps (acc(name \<mapsto> d))
           | None \<Rightarrow> apply_defaults ps acc))"

text \<open>
  \<^verbatim>\<open>_parse_args(func, args, kwargs, extra, partial)\<close>.  Only the keyword arguments that
  name a parameter are given to \<^verbatim>\<open>bind\<close>, so \<^verbatim>\<open>bind\<close> never meets an unexpected keyword.
  Every \<^verbatim>\<open>TypeError\<close> of \<^verbatim>\<open>bind\<close> becomes a \<^verbatim>\<open>BindError\<close>.
\<close>

definition parse_args ::
  "pyfunc \<Rightarrow> pyval list \<Rightarrow> kwargs \<Rightarrow> bool \<Rightarrow> bool \<Rightarrow> exc + kwargs" where
  "parse_args f args kws extra partial =
     (case sig_bind (fn_params f) partial args (kws |` set (map fst (fn_params f))) of
        Inl reason \<Rightarrow> Inl (BindError (CannotBind args kws (fn_name f) reason))
      | Inr bound \<Rightarrow>
          (let arguments = apply_defaults (fn_params f) bound
           in Inr (if extra
                   then (\<lambda>label. if label \<notin> set (map fst (fn_params f)) \<and> kws label \<noteq> None
                                  then kws label else arguments label)
                   else arguments)))"

subsection \<open>Lazy values\<close>

text \<open>
  An object of class \<^verbatim>\<open>func\<close> (or of its subclass \<^verbatim>\<open>val\<close>, when the first component
  holds \<^verbatim>\<open>_arg\<close>): what it wraps, its default if one was given, and its call chain.  A
  \<^verbatim>\<open>func\<close> wraps a plain callable or another \<^verbatim>\<open>func\<close>; a \<^verbatim>\<open>func\<close> around a \<^verbatim>\<open>first\<close>
  or an \<^verbatim>\<open>init\<close> object is not modelled.
\<close>

datatype func_obj = FuncObj "string option" func_wraps "pyval option" "step list"
  and func_wraps = WPlain pyfunc | WFunc func_obj

datatype lazy =
    LFunc func_obj
  | LFirst "lazy list" "pyval option" "step list"
  | LInit pyval "init_arg list" "(string \<times> init_arg) list" "step list"
  and init_arg = ArgLazy lazy | ArgPlain pyval

text \<open>What \<^verbatim>\<open>load\<close> accepts: a plain callable or a lazy object.\<close>

datatype loadable = Plain pyfunc | Lazy lazy

text \<open>\<^verbatim>\<open>self._func = wraps._func if isinstance(wraps, func) else wraps\<close>.\<close>

fun fo_func :: "func_obj \<Rightarrow> pyfunc" where
  "fo_func (FuncObj a (WPlain f) d chain) = f"
| "fo_func (FuncObj a (WFunc g) d chain) = fo_func g"

fun fo_chain :: "func_obj \<Rightarrow> step list" where
  "fo_chain (FuncObj a w d chain) = chain"

text \<open>\<^verbatim>\<open>func.__init__(wraps, default)\<close> and \<^verbatim>\<open>val.__init__(arg, default)\<close>.\<close>

definition func_init :: "func_wraps \<Rightarrow> pyval option \<Rightarrow> func_obj" where
  "func_init wraps dflt = FuncObj None wraps dflt []"

text \<open>\<^verbatim>\<open>eval(f'lambda {arg}: {arg}')\<close>, for \<open>arg\<close> an identifier.\<close>

definition identity_lambda :: "string \<Rightarrow> pyfunc" where
  "identity_lambda arg =
     \<lparr> fn_name = ''<lambda>'', fn_params = [(arg, None)],
       fn_body = (\<lambda>s m. case m arg of
                    Some v \<Rightarrow> Inr v
                  | None \<Rightarrow> Inl (TypeError ''missing 1 required positional argument'')) \<rparr>"

definition val_init :: "string \<Rightarrow> pyval option \<Rightarrow> func_obj" where
  "val_init arg dflt = FuncObj (Some arg) (WPlain (identity_lambda arg)) dflt []"

text \<open>
  \<^verbatim>\<open>func._call\<close>, and \<^verbatim>\<open>Lazy._load\<close> on a \<^verbatim>\<open>func\<close> object.  The \<^verbatim>\<open>try\<close> covers only
  \<^verbatim>\<open>_parse_args\<close>, whose only exception is \<^verbatim>\<open>BindError\<close>.
\<close>

fun func_call :: "world \<Rightarrow> call option \<Rightarrow> func_obj \<Rightarrow> kwargs \<Rightarrow> exc + pyval"
  and func_load :: "world \<Rightarrow> call option \<Rightarrow> func_obj \<Rightarrow> kwargs \<Rightarrow> exc + pyval" where
  "func_call W s (FuncObj a wraps dflt chain) call_args =
     (case parse_args (fo_func (FuncObj a wraps dflt chain)) [] call_args False False of
        Inl e \<Rightarrow> (case dflt of Some d \<Rightarrow> Inr d | None \<Rightarrow> Inl e)
      | Inr bound \<Rightarrow>
          (case wraps of
             WFunc g \<Rightarrow> func_load W s g bound
           | WPlain f \<Rightarrow> fn_body f s bound))"
| "func_load W s (FuncObj a wraps dflt chain) call_args =
     (case func_call W s (FuncObj a wraps dflt chain) call_args of
        Inl e \<Rightarrow> Inl e
      | Inr v \<Rightarrow> replay W v chain)"

text \<open>The class of a lazy object.\<close>

fun lazy_class_of :: "lazy \<Rightarrow> lazy_class" where
  "lazy_class_of (LFunc (FuncObj None w d chain)) = ClsFunc"
| "lazy_class_of (LFunc (FuncObj (Some a) w d chain)) = ClsVal"
| "lazy_class_of (LFirst cands d chain) = ClsFirst"
| "lazy_class_of (LInit cls args kws chain) = ClsInit"

fun lazy_chain :: "lazy \<Rightarrow> step list" where
  "lazy_chain (LFunc fo) = fo_chain fo"
| "lazy_chain (LFirst cands d chain) = chain"
| "lazy_chain (LInit cls args kws chain) = chain"

text \<open>
  \<^verbatim>\<open>Lazy._load\<close> and the \<^verbatim>\<open>_call\<close> method of each class.  Inside the library \<^verbatim>\<open>load\<close> is
  applied to lazy objects only, where it is \<^verbatim>\<open>_load\<close>.  \<open>first_loop\<close> is the \<^verbatim>\<open>for\<close> loop
  of \<^verbatim>\<open>first._call\<close>: \<open>Some r\<close> when a candidate returned or raised \<open>r\<close> out of the loop,
  \<open>None\<close> when every candidate raised \<^verbatim>\<open>BindError\<close>.  \<open>init_args\<close> and \<open>init_kwargs\<close> are
  the two comprehensions of \<^verbatim>\<open>init._call\<close>, and \<open>init_arg_value\<close> is their element
  \<^verbatim>\<open>load(a, **call_args) if isinstance(a, Lazy) else a\<close>.
\<close>

function (sequential) Lazy_call :: "world \<Rightarrow> call option \<Rightarrow> lazy \<Rightarrow> kwargs \<Rightarrow> exc + pyval"
  and Lazy_load :: "world \<Rightarrow> call option \<Rightarrow> lazy \<Rightarrow> kwargs \<Rightarrow> exc + pyval"
  and first_loop :: "world \<Rightarrow> call option \<Rightarrow> lazy list \<Rightarrow> kwargs \<Rightarrow> (exc + pyval) option"
  and init_arg_value :: "world \<Rightarrow> call option \<Rightarrow> init_arg \<Rightarrow> kwargs \<Rightarrow> exc + pyval"
  and init_args :: "world \<Rightarrow> call option \<Rightarrow> init_arg list \<Rightarrow> kwargs \<Rightarrow> exc + pyval list"
  and init_kwargs ::
    "world \<Rightarrow> call option \<Rightarrow> (string \<times> init_arg) list \<Rightarrow> kwargs \<Rightarrow> exc + (string \<times> pyval) list"
  where
  "Lazy_call W s (LFunc fo) call_args = func_call W s fo call_args"
| "Lazy_call W s (LFirst lazy_vals dflt chain) call_args =
     (case first_loop W s lazy_vals call_args of
        Some r \<Rightarrow> r
      | None \<Rightarrow>
          (case dflt of
             Some d \<Rightarrow> Inr d
           | None \<Rightarrow> Inl (BindError (NothingInFirst call_args (map lazy_class_of lazy_vals)))))"
| "Lazy_call W s (LInit cls args kws chain) call_args =
     (case init_args W s args call_args of
        Inl e \<Rightarrow> Inl e
      | Inr class_args \<Rightarrow>
          (case init_kwargs W s kws call_args of
             Inl e \<Rightarrow> Inl e
           | Inr class_kwargs \<Rightarrow> py_call W cls class_args class_kwargs))"
| "Lazy_load W s l call_args =
     (case Lazy_call W s l call_args of
        Inl e \<Rightarrow> Inl e
      | Inr v \<Rightarrow> replay W v (lazy_chain l))"
| "first_loop W s [] call_args = None"
| "first_loop W s (lazy_val # rest) call_args =
     (case Lazy_load W s lazy_val call_args of
        Inl (BindError b) \<Rightarrow> first_loop W s rest call_args
      | r \<Rightarrow> Some r)"
| "init_arg_value W s (ArgPlain v) call_args = Inr v"
| "init_arg_value W s (ArgLazy l) call_args = Lazy_load W s l call_args"
| "init_args W s [] call_args = Inr []"
| "init_args W s (a # rest) call_args =
     (case init_arg_value W s a call_args of
        Inl e \<Rightarrow> Inl e
      | Inr v \<Rightarrow>
          (case init_args W s rest call_args of
             Inl e \<Rightarrow> Inl e
           | Inr vs \<Rightarrow> Inr (v # vs)))"
| "init_kwargs W s [] call_args = Inr []"
| "init_kwargs W s ((label, a) # rest) call_args =
     (case init_arg_value W s a call_args of
        Inl e \<Rightarrow> Inl e
      | Inr v \<Rightarrow>
          (case init_kwargs W s rest call_args of
             Inl e \<Rightarrow> Inl e
           | Inr kvs \<Rightarrow> Inr ((label, v) # kvs)))"
  by pat_completeness auto

termination
  apply (relation "measure (\<lambda>x. case x of
      Inl (Inl (W, s, l, m)) \<Rightarrow> 2 * size l
    | Inl (Inr (Inl (W, s, l, m))) \<Rightarrow> 2 * size l + 1
    | Inl (Inr (Inr (W, s, ls, m))) \<Rightarrow> 2 * size_list size ls + 1
    | Inr (Inl (W, s, a, m)) \<Rightarrow> 2 * size a
    | Inr (Inr (Inl (W, s, as, m))) \<Rightarrow> 2 * size_list size as + 1
    | Inr (Inr (Inr (W, s, kws, m))) \<Rightarrow> 2 * size_list (size_prod (\<lambda>x. 0) size) kws + 1)")
  apply simp_all
  done

text \<open>
  Python binds keyword arguments to the formal parameters of the function it calls, and a
  keyword that names a parameter already given positionally is a \<^verbatim>\<open>TypeError\<close> (got
  multiple values for argument).  \<^verbatim>\<open>load(lazy, **call_args)\<close> meets this for the key
  \<^verbatim>\<open>lazy\<close>, and the call \<^verbatim>\<open>lazy._load(**call_args)\<close> in its body for the key \<^verbatim>\<open>self\<close>.
\<close>

definition keyword_clash :: "kwargs \<Rightarrow> exc option" where
  "keyword_clash call_args =
     (case call_args ''lazy'' of
        Some v \<Rightarrow> Some (TypeError ''load() got multiple values for argument lazy'')
      | None \<Rightarrow>
          (case call_args ''self'' of
             Some v \<Rightarrow> Some (TypeError ''_load() got multiple values for argument self'')
           | None \<Rightarrow> None))"

text \<open>
  \<^verbatim>\<open>load(lazy, **call_args)\<close>: anything that is not a lazy object is wrapped in \<^verbatim>\<open>func\<close>,
  and the object's \<^verbatim>\<open>_load\<close> runs on the mapping.  \<open>Lazy_load\<close> and \<open>Lazy_call\<close> above are
  the bodies of \<^verbatim>\<open>_load\<close> and \<^verbatim>\<open>_call\<close>, for a mapping that Python has bound to
  \<^verbatim>\<open>**call_args\<close>; \<^verbatim>\<open>first._call\<close> and \<^verbatim>\<open>init._call\<close> pass on the mapping they received.
\<close>

definition load :: "world \<Rightarrow> call option \<Rightarrow> loadable \<Rightarrow> kwargs \<Rightarrow> exc + pyval" where
  "load W s x call_args =
     (case keyword_clash call_args of
        Some e \<Rightarrow> Inl e
      | None \<Rightarrow>
          (case x of
             Plain f \<Rightarrow> Lazy_load W s (LFunc (func_init (WPlain f) None)) call_args
           | Lazy l \<Rightarrow> Lazy_load W s l call_args))"

text \<open>
  \<^verbatim>\<open>first.__init__\<close>: a string becomes a \<^verbatim>\<open>val\<close>, a callable a \<^verbatim>\<open>func\<close>, a lazy
  object stays, and anything else is a \<^verbatim>\<open>TypeError\<close>.
\<close>

datatype candidate = CLazy lazy | CStr string | CCallable pyfunc | COther pyval

fun get_lazy_val :: "candidate \<Rightarrow> exc + lazy" where
  "get_lazy_val (CLazy l) = Inr l"
| "get_lazy_val (CStr name) = Inr (LFunc (val_init name None))"
| "get_lazy_val (CCallable f) = Inr (LFunc (func_init (WPlain f) None))"
| "get_lazy_val (COther v) = Inl (TypeError ''must be a string, function, or arg.Lazy object'')"

fun get_lazy_vals :: "candidate list \<Rightarrow> exc + lazy list" where
  "get_lazy_vals [] = Inr []"
| "get_lazy_vals (x # xs) =
     (case get_lazy_val x of
        Inl e \<Rightarrow> Inl e
      | Inr l \<Rightarrow> (case get_lazy_vals xs of Inl e \<Rightarrow> Inl e | Inr ls \<Rightarrow> Inr (l # ls)))"

definition first_init :: "candidate list \<Rightarrow> pyval option \<Rightarrow> exc + lazy" where
  "first_init lazy_vals dflt =
     (case get_lazy_vals lazy_vals of
        Inl e \<Rightarrow> Inl e
      | Inr ls \<Rightarrow> Inr (LFirst ls dflt []))"

subsection \<open>The current call and the guard of partial mode\<close>

text \<open>The function \<^verbatim>\<open>call()\<close>.\<close>

definition call_fn :: "call option \<Rightarrow> exc + call" where
  "call_fn s =
     (case s of
        None \<Rightarrow> Inl (AssertionError ''No python-args function is running.'')
      | Some c \<Rightarrow> Inr c)"

text \<open>
  \<^verbatim>\<open>with _suppress_bind_errors_in_partial_call(): body\<close>, given the slot as it is when the
  body ends and the body's outcome.  The block completes with the body's value, or it
  swallows a \<^verbatim>\<open>BindError\<close> (the statements after the \<^verbatim>\<open>with\<close> block run next), or it
  raises.
\<close>

datatype 'a guarded = Completed 'a | Swallowed | Raised exc

definition suppress_bind_errors_in_partial_call :: "call option \<Rightarrow> exc + 'a \<Rightarrow> 'a guarded" where
  "suppress_bind_errors_in_partial_call s r =
     (case r of
        Inr v \<Rightarrow> Completed v
      | Inl (BindError b) \<Rightarrow>
          (case call_fn s of
             Inl e \<Rightarrow> Raised e
           | Inr c \<Rightarrow> if \<not> truthy (is_partial c) then Raised (BindError b) else Swallowed)
      | Inl e \<Rightarrow> Raised e)"

subsection \<open>The decorator chain\<close>

text \<open>
  An \<^verbatim>\<open>Args\<close> object of each class with its configuration and what it wraps: a plain
  function or another \<^verbatim>\<open>Args\<close> object.  The key of a context is its name, or the context
  function itself when it was given positionally.
\<close>

datatype ctx_key = Unnamed | Named string

datatype args_obj =
    Args wrapped
  | Validators "loadable list" wrapped
  | Contexts "(ctx_key \<times> loadable) list" wrapped
  | Defaults "(string \<times> loadable) list" wrapped
  | Parametrize string loadable wrapped
  and wrapped = WrapsFunc pyfunc | WrapsArgs args_obj

type_synonym result = "(exc + pyval) \<times> call option"

text \<open>
  \<^verbatim>\<open>self._func = wraps if not isinstance(wraps, Args) else wraps._func\<close>, set by
  \<^verbatim>\<open>Args.__init__\<close> in every class.
\<close>

primrec Args_func :: "args_obj \<Rightarrow> pyfunc"
  and wrapped_func :: "wrapped \<Rightarrow> pyfunc" where
  "Args_func (Args w) = wrapped_func w"
| "Args_func (Validators vs w) = wrapped_func w"
| "Args_func (Contexts cs w) = wrapped_func w"
| "Args_func (Defaults ds w) = wrapped_func w"
| "Args_func (Parametrize a pf w) = wrapped_func w"
| "wrapped_func (WrapsFunc f) = f"
| "wrapped_func (WrapsArgs a) = Args_func a"

text \<open>
  The second branch of \<^verbatim>\<open>Args._call\<close>, for an object that wraps the plain function: unless
  the call is in pre-func mode, bind the arguments strictly and call the function; in
  pre-func mode fall through and return \<^verbatim>\<open>None\<close>.
\<close>

definition Args_call_target :: "pyfunc \<Rightarrow> kwargs \<Rightarrow> call option \<Rightarrow> result" where
  "Args_call_target f call_args s =
     (case call_fn s of
        Inl e \<Rightarrow> (Inl e, s)
      | Inr c \<Rightarrow>
          if \<not> truthy (is_pre_func c) then
            (case parse_args f [] call_args False False of
               Inl e \<Rightarrow> (Inl e, s)
             | Inr bound \<Rightarrow> (fn_body f s bound, s))
          else (Inr PNone, s))"

text \<open>
  \<^verbatim>\<open>Validators._call\<close>.  \<open>inner\<close> is \<^verbatim>\<open>super()._call\<close>.  The loop yields the exception
  that left it, if any.
\<close>

fun validators_loop :: "world \<Rightarrow> call option \<Rightarrow> loadable list \<Rightarrow> kwargs \<Rightarrow> exc option" where
  "validators_loop W s [] kws = None"
| "validators_loop W s (validator_func # rest) kws =
     (case suppress_bind_errors_in_partial_call s (load W s validator_func kws) of
        Raised e \<Rightarrow> Some e
      | Completed v \<Rightarrow> validators_loop W s rest kws
      | Swallowed \<Rightarrow> validators_loop W s rest kws)"

definition Validators_call ::
  "world \<Rightarrow> loadable list \<Rightarrow> (kwargs \<Rightarrow> call option \<Rightarrow> result) \<Rightarrow> kwargs \<Rightarrow> call option \<Rightarrow> result"
  where
  "Validators_call W validators inner kws s =
     (case validators_loop W s validators kws of
        Some e \<Rightarrow> (Inl e, s)
      | None \<Rightarrow> inner kws s)"

text \<open>
  \<^verbatim>\<open>Defaults._call\<close>.  The loop yields \<^verbatim>\<open>default_args\<close>, or the exception that left it.
\<close>

fun defaults_loop ::
  "world \<Rightarrow> call option \<Rightarrow> (string \<times> loadable) list \<Rightarrow> kwargs \<Rightarrow> kwargs \<Rightarrow> exc + kwargs" where
  "defaults_loop W s [] call_args default_args = Inr default_args"
| "defaults_loop W s ((label, default_func) # rest) call_args default_args =
     (case suppress_bind_errors_in_partial_call s
             (load W s default_func (call_args ++ default_args)) of
        Raised e \<Rightarrow> Inl e
      | Completed v \<Rightarrow> defaults_loop W s rest call_args (default_args(label \<mapsto> v))
      | Swallowed \<Rightarrow> defaults_loop W s rest call_args default_args)"

definition Defaults_call ::
  "world \<Rightarrow> (string \<times> loadable) list \<Rightarrow> (kwargs \<Rightarrow> call option \<Rightarrow> result) \<Rightarrow> kwargs
     \<Rightarrow> call option \<Rightarrow> result" where
  "Defaults_call W defaults inner call_args s =
     (case defaults_loop W s defaults call_args Map.empty of
        Inl e \<Rightarrow> (Inl e, s)
      | Inr default_args \<Rightarrow> inner (call_args ++ default_args) s)"

text \<open>
  \<^verbatim>\<open>ExitStack.__exit__\<close>.  The stack holds the entered context managers, the last one
  first.  Each \<^verbatim>\<open>__exit__\<close> receives the exception in flight; it may suppress it (a true
  result) or raise another one, which the next \<^verbatim>\<open>__exit__\<close> then receives.  The result is
  an exception to raise, or whether the exception that \<^verbatim>\<open>ExitStack.__exit__\<close> received
  is suppressed.
\<close>

fun exit_callbacks ::
  "world \<Rightarrow> pyval list \<Rightarrow> exc option \<Rightarrow> bool \<Rightarrow> bool \<Rightarrow> call option
     \<Rightarrow> (exc option \<times> bool \<times> bool) \<times> call option" where
  "exit_callbacks W [] exc_details suppressed_exc pending_raise s =
     ((exc_details, suppressed_exc, pending_raise), s)"
| "exit_callbacks W (cm # rest) exc_details suppressed_exc pending_raise s =
     (case cm_exit W cm exc_details s of
        (Inr True, s') \<Rightarrow> exit_callbacks W rest None True False s'
      | (Inr False, s') \<Rightarrow> exit_callbacks W rest exc_details suppressed_exc pending_raise s'
      | (Inl e, s') \<Rightarrow> exit_callbacks W rest (Some e) suppressed_exc True s')"

definition ExitStack_exit ::
  "world \<Rightarrow> pyval list \<Rightarrow> exc option \<Rightarrow> call option \<Rightarrow> (exc + bool) \<times> call option" where
  "ExitStack_exit W stack received s =
     (case exit_callbacks W stack received False False s of
        ((Some e, suppressed_exc, True), s') \<Rightarrow> (Inl e, s')
      | ((exc_details, suppressed_exc, pending_raise), s') \<Rightarrow>
          (Inr (received \<noteq> None \<and> suppressed_exc), s'))"

text \<open>
  Leaving the \<^verbatim>\<open>with ExitStack()\<close> block of \<^verbatim>\<open>Contexts._call\<close> with the outcome \<open>r\<close> of
  its body.  When the stack suppresses an exception of the body, control reaches the end of
  \<^verbatim>\<open>Contexts._call\<close>, which returns \<^verbatim>\<open>None\<close>.
\<close>

definition leave_ExitStack :: "world \<Rightarrow> pyval list \<Rightarrow> exc + pyval \<Rightarrow> call option \<Rightarrow> result" where
  "leave_ExitStack W stack r s =
     (case r of
        Inl e \<Rightarrow>
          (case ExitStack_exit W stack (Some e) s of
             (Inl e', s') \<Rightarrow> (Inl e', s')
           | (Inr True, s') \<Rightarrow> (Inr PNone, s')
           | (Inr False, s') \<Rightarrow> (Inl e, s'))
      | Inr v \<Rightarrow>
          (case ExitStack_exit W stack None s of
             (Inl e', s') \<Rightarrow> (Inl e', s')
           | (Inr b, s') \<Rightarrow> (Inr v, s')))"

text \<open>
  The \<^verbatim>\<open>for\<close> loop of \<^verbatim>\<open>Contexts._call\<close>.  It yields the exception that left it, if any,
  with \<^verbatim>\<open>context_args\<close>, the stack of entered context managers and the slot at that
  moment.  The guard covers both the evaluation of the context function and entering the
  context manager it returned; a context manager is pushed only once it has been entered.
\<close>

fun contexts_loop ::
  "world \<Rightarrow> (ctx_key \<times> loadable) list \<Rightarrow> kwargs \<Rightarrow> kwargs \<Rightarrow> pyval list \<Rightarrow> call option
     \<Rightarrow> exc option \<times> kwargs \<times> pyval list \<times> call option" where
  "contexts_loop W [] call_args context_args stack s = (None, context_args, stack, s)"
| "contexts_loop W ((context_key, context_func) # rest) call_args context_args stack s =
     (case load W s context_func (call_args ++ context_args) of
        Inl e \<Rightarrow>
          (case suppress_bind_errors_in_partial_call s (Inl e :: exc + pyval) of
             Raised e' \<Rightarrow> (Some e', context_args, stack, s)
           | Completed v \<Rightarrow> contexts_loop W rest call_args context_args stack s
           | Swallowed \<Rightarrow> contexts_loop W rest call_args context_args stack s)
      | Inr cm \<Rightarrow>
          (case cm_enter W cm s of
             (r, s') \<Rightarrow>
               (case suppress_bind_errors_in_partial_call s' r of
                  Raised e' \<Rightarrow> (Some e', context_args, stack, s')
                | Swallowed \<Rightarrow> contexts_loop W rest call_args context_args stack s'
                | Completed resource \<Rightarrow>
                    contexts_loop W rest call_args
                      (case context_key of
                         Named name \<Rightarrow> context_args(name \<mapsto> resource)
                       | Unnamed \<Rightarrow> context_args)
                      (cm # stack) s')))"

definition Contexts_call ::
  "world \<Rightarrow> (ctx_key \<times> loadable) list \<Rightarrow> (kwargs \<Rightarrow> call option \<Rightarrow> result) \<Rightarrow> kwargs
     \<Rightarrow> call option \<Rightarrow> result" where
  "Contexts_call W contexts inner call_args s =
     (case contexts_loop W contexts call_args Map.empty [] s of
        (Some e, context_args, stack, s1) \<Rightarrow> leave_ExitStack W stack (Inl e) s1
      | (None, context_args, stack, s1) \<Rightarrow>
          (case inner (call_args ++ context_args) s1 of
             (r, s2) \<Rightarrow> leave_ExitStack W stack r s2))"

text \<open>
  \<^verbatim>\<open>enumerate(arg_vals)\<close>: a list gives its elements, a string its characters, a user object
  what the world says; nothing else is iterable.  The elements are taken at once: an
  iterator that fails after some elements is not modelled.
\<close>

fun iterate :: "world \<Rightarrow> pyval \<Rightarrow> exc + pyval list" where
  "iterate W (PList xs) = Inr xs"
| "iterate W (PStr str) = Inr (map (\<lambda>ch. PStr [ch]) str)"
| "iterate W (PObj k) = py_iter W (PObj k)"
| "iterate W v = Inl (TypeError ''object is not iterable'')"

text \<open>
  The \<^verbatim>\<open>for\<close> loop of \<^verbatim>\<open>Parametrize._call\<close>, from index \<open>i\<close>, with the results collected
  so far.
\<close>

fun parametrize_loop ::
  "(kwargs \<Rightarrow> call option \<Rightarrow> result) \<Rightarrow> string \<Rightarrow> pyval \<Rightarrow> kwargs \<Rightarrow> nat \<Rightarrow> pyval list
     \<Rightarrow> pyval list \<Rightarrow> call option \<Rightarrow> (exc + pyval list) \<times> call option" where
  "parametrize_loop inner arg arg_vals call_args i [] results s = (Inr results, s)"
| "parametrize_loop inner arg arg_vals call_args i (arg_val # rest) results s =
     (case call_fn s of
        Inl e \<Rightarrow> (Inl e, s)
      | Inr c \<Rightarrow>
          (case with_Call_set c
                  [(''parametrize_arg'', PStr arg),
                   (''parametrize_arg_val'', arg_val),
                   (''parametrize_arg_vals'', arg_vals),
                   (''parametrize_arg_index'', PInt (int i))]
                  (inner (call_args(arg \<mapsto> arg_val))) of
             (Inl e, s') \<Rightarrow> (Inl e, s')
           | (Inr r, s') \<Rightarrow>
               parametrize_loop inner arg arg_vals call_args (Suc i) rest (results @ [r]) s'))"

text \<open>
  \<^verbatim>\<open>Parametrize._call\<close>.  The guard covers the evaluation of the parametrization function
  and the whole loop.  When it swallows a \<^verbatim>\<open>BindError\<close>, the statement after the
  \<^verbatim>\<open>with\<close> block runs: \<^verbatim>\<open>return super()._call(call_args)\<close>.
\<close>

definition Parametrize_call ::
  "world \<Rightarrow> string \<Rightarrow> loadable \<Rightarrow> (kwargs \<Rightarrow> call option \<Rightarrow> result) \<Rightarrow> kwargs
     \<Rightarrow> call option \<Rightarrow> result" where
  "Parametrize_call W arg parametrize_func inner call_args s =
     (case (case load W s parametrize_func call_args of
              Inl e \<Rightarrow> (Inl e, s)
            | Inr arg_vals \<Rightarrow>
                (case iterate W arg_vals of
                   Inl e \<Rightarrow> (Inl e, s)
                 | Inr vs \<Rightarrow> parametrize_loop inner arg arg_vals call_args 0 vs [] s)) of
        (r, s') \<Rightarrow>
          (case suppress_bind_errors_in_partial_call s' r of
             Completed results \<Rightarrow> (Inr (PList results), s')
           | Raised e \<Rightarrow> (Inl e, s')
           | Swallowed \<Rightarrow> inner call_args s'))"

text \<open>
  \<open>node_call\<close> is the \<^verbatim>\<open>_call\<close> method of an object, chosen by its class; \<open>Args_call\<close> is
  \<^verbatim>\<open>Args._call\<close> (which the subclasses reach as \<^verbatim>\<open>super()._call\<close>), given what the
  object wraps.
\<close>

primrec node_call :: "world \<Rightarrow> args_obj \<Rightarrow> kwargs \<Rightarrow> call option \<Rightarrow> result"
  and Args_call :: "world \<Rightarrow> wrapped \<Rightarrow> kwargs \<Rightarrow> call option \<Rightarrow> result" where
  "node_call W (Args w) = Args_call W w"
| "node_call W (Validators validators w) = Validators_call W validators (Args_call W w)"
| "node_call W (Contexts contexts w) = Contexts_call W contexts (Args_call W w)"
| "node_call W (Defaults defaults w) = Defaults_call W defaults (Args_call W w)"
| "node_call W (Parametrize arg parametrize_func w) =
     Parametrize_call W arg parametrize_func (Args_call W w)"
| "Args_call W (WrapsArgs a) = node_call W a"
| "Args_call W (WrapsFunc f) = Args_call_target f"

text \<open>
  \<^verbatim>\<open>Args.__call__\<close>, on the thread-local slot.  The \<^verbatim>\<open>finally\<close> clause deletes the
  attribute \<^verbatim>\<open>val\<close>, which fails if it is no longer there.
\<close>

definition Args_dunder_call ::
  "world \<Rightarrow> args_obj \<Rightarrow> pyval list \<Rightarrow> kwargs \<Rightarrow> call option \<Rightarrow> result" where
  "Args_dunder_call W self args kws s =
     (if s \<noteq> None then (Inl (AssertionError ''Can only call Args class once in chain.''), s)
      else
        (case (case parse_args (Args_func self) args kws True True of
                 Inl e \<Rightarrow> (Inl e, Some Call_init)
               | Inr call_args \<Rightarrow> node_call W self call_args (Some Call_init)) of
           (r, Some c) \<Rightarrow> (r, None)
         | (r, None) \<Rightarrow> (Inl (AttributeError ''val''), None)))"

text \<open>
  \<^verbatim>\<open>Parametrize.__init__\<close> with the dictionary \<^verbatim>\<open>parametrize\<close> as the list of its items,
  and the decorator \<^verbatim>\<open>parametrize(**parametrize_funcs)\<close>, which constructs the node when
  it is applied to what it decorates.
\<close>

definition Parametrize_init :: "wrapped \<Rightarrow> (string \<times> loadable) list \<Rightarrow> exc + args_obj" where
  "Parametrize_init wraps parametrize =
     (if length parametrize \<noteq> 1 then Inl (AssertionError [])
      else Inr (Parametrize (fst (hd parametrize)) (snd (hd parametrize)) wraps))"

definition parametrize :: "(string \<times> loadable) list \<Rightarrow> wrapped \<Rightarrow> exc + args_obj" where
  "parametrize parametrize_funcs wraps = Parametrize_init wraps parametrize_funcs"

subsection \<open>Reading a binding failure\<close>

text \<open>
  The first parameter, in declaration order, that has neither a value in the mapping nor a
  default; and the parameter that a \<^verbatim>\<open>BindError\<close> of \<^verbatim>\<open>_parse_args\<close> reports as missing.
\<close>

fun first_missing :: "(string \<times> pyval option) list \<Rightarrow> kwargs \<Rightarrow> string option" where
  "first_missing [] m = None"
| "first_missing ((name, dflt) # ps) m =
     (if m name = None \<and> dflt = None then Some name else first_missing ps m)"

fun missing_argument :: "exc + 'a \<Rightarrow> string option" where
  "missing_argument (Inl (BindError (CannotBind args kws f (MissingRequired p)))) = Some p"
| "missing_argument r = None"

subsection \<open>The parametrization fields of a Call\<close>

text \<open>
  For stating what \<^verbatim>\<open>Parametrize._call\<close> does: a \<^verbatim>\<open>Call\<close> whose four parametrization
  fields report the argument name, the current value, the whole sequence and the index; and
  a \<^verbatim>\<open>Call\<close> in which these four fields have the values they have in another one.
\<close>

definition reporting :: "call \<Rightarrow> string \<Rightarrow> pyval \<Rightarrow> pyval \<Rightarrow> nat \<Rightarrow> call" where
  "reporting c arg arg_val arg_vals i =
     c\<lparr> parametrize_arg := PStr arg, parametrize_arg_val := arg_val,
        parametrize_arg_vals := arg_vals, parametrize_arg_index := PInt (int i) \<rparr>"

definition written_back :: "call \<Rightarrow> call \<Rightarrow> call" where
  "written_back c' c =
     c'\<lparr> parametrize_arg := parametrize_arg c, parametrize_arg_val := parametrize_arg_val c,
         parametrize_arg_vals := parametrize_arg_vals c,
         parametrize_arg_index := parametrize_arg_index c \<rparr>"

subsection \<open>Functions for examples\<close>

text \<open>
  \<^verbatim>\<open>def f(q, p): return None\<close> and \<^verbatim>\<open>def double(val): return val * 2\<close>, where \<^verbatim>\<open>*\<close>
  doubles an integer (a boolean counting as 0 or 1) and repeats a string or a list; on
  \<^verbatim>\<open>None\<close>, a bound method or an opaque object it is a \<^verbatim>\<open>TypeError\<close> here.
\<close>

definition example_f :: pyfunc where
  "example_f =
     \<lparr> fn_name = ''f'', fn_params = [(''q'', None), (''p'', None)],
       fn_body = (\<lambda>s m. Inr PNone) \<rparr>"

definition example_double :: pyfunc where
  "example_double =
     \<lparr> fn_name = ''double'', fn_params = [(''val'', None)],
       fn_body = (\<lambda>s m. case m ''val'' of
                    Some (PInt i) \<Rightarrow> Inr (PInt (i * 2))
                  | Some (PBool b) \<Rightarrow> Inr (PInt (if b then 2 else 0))
                  | Some (PStr str) \<Rightarrow> Inr (PStr (str @ str))
                  | Some (PList xs) \<Rightarrow> Inr (PList (xs @ xs))
                  | _ \<Rightarrow> Inl (TypeError ''unsupported operand type(s) for *'')) \<rparr>"

text \<open>\<^verbatim>\<open>def check(x): return None\<close>, as a validator, default or context function.\<close>

definition example_check :: pyfunc where
  "example_check =
     \<lparr> fn_name = ''check'', fn_params = [(''x'', None)],
       fn_body = (\<lambda>s m. Inr PNone) \<rparr>"

section \<open>Properties\<close>

subsection \<open>Call.set\<close>

lemma snapshot_keys:
  "snapshot c kws = Inr orig \<Longrightarrow> map fst orig = map fst kws"
  by (induction kws arbitrary: orig) (auto split: sum.splits)

lemma call_getattr_setattr_other:
  "j \<noteq> k \<Longrightarrow> call_getattr (call_setattr c k v) j = call_getattr c j"
  by (auto simp: call_getattr_def call_setattr_def split: if_splits)

lemma call_getattr_setattr_same:
  "call_getattr c k = Inr old \<Longrightarrow> call_getattr (call_setattr c' k v) k = Inr v"
  by (auto simp: call_getattr_def call_setattr_def split: if_splits)

lemma snapshot_values:
  "snapshot c kws = Inr orig \<Longrightarrow> (k, v) \<in> set orig \<Longrightarrow> call_getattr c k = Inr v"
  by (induction kws arbitrary: orig) (auto split: sum.splits)

lemma setattrs_written_back:
  "(\<And>k v. (k, v) \<in> set orig \<Longrightarrow> call_getattr c k = Inr v) \<Longrightarrow>
   call_getattr (setattrs c' orig) j =
     (if j \<in> fst ` set orig then call_getattr c j else call_getattr c' j)"
proof (induction orig arbitrary: c')
  case Nil
  then show ?case by simp
next
  case (Cons p orig)
  obtain k v where p: "p = (k, v)" by (cases p)
  have kv: "call_getattr c k = Inr v" using Cons.prems p by simp
  have ih: "call_getattr (setattrs (call_setattr c' k v) orig) j =
     (if j \<in> fst ` set orig then call_getattr c j else call_getattr (call_setattr c' k v) j)"
    using Cons.IH Cons.prems by simp
  show ?case
  proof (cases "j = k")
    case True
    then show ?thesis using ih kv p by (simp add: call_getattr_setattr_same)
  next
    case False
    then show ?thesis using ih p by (simp add: call_getattr_setattr_other)
  qed
qed

text \<open>
  When the body of \<^verbatim>\<open>with self.set(**kwargs)\<close> returns, every overridden field has its
  value from before the scope again, and every other field is as the body left it.
\<close>

lemma with_Call_set_on_return:
  assumes "temporary_set_enter c kws = Inr (c1, orig)" and "body (Some c1) = (Inr r, Some c2)"
  shows "\<exists>c3. with_Call_set c kws body = (Inr r, Some c3) \<and>
          (\<forall>j. call_getattr c3 j =
            (if j \<in> fst ` set kws then call_getattr c j else call_getattr c2 j))"
proof -
  from assms(1) have snap: "snapshot c kws = Inr orig"
    by (auto simp: temporary_set_enter_def split: sum.splits)
  have keys: "fst ` set orig = fst ` set kws"
    using snapshot_keys[OF snap] by (metis set_map)
  have w: "with_Call_set c kws body = (Inr r, Some (setattrs c2 orig))"
    using assms by (simp add: with_Call_set_def temporary_set_resume_def)
  have "call_getattr (setattrs c2 orig) j =
          (if j \<in> fst ` set kws then call_getattr c j else call_getattr c2 j)" for j
    using setattrs_written_back[of orig c c2 j] snapshot_values[OF snap] keys by simp
  with w show ?thesis by blast
qed

text \<open>
  C1.  The claim: the scope guard of \<^verbatim>\<open>Call.set\<close> restores the snapshot on exit from the
  scope, both when the body returns and when it raises.  The code restores it only when the
  body returns (\<open>with_Call_set_on_return\<close>).  When the body raises, the override stays: in a
  fresh \<^verbatim>\<open>Call\<close>, after \<^verbatim>\<open>with call.set(is_partial=True): raise Exception('boom')\<close> the
  field \<^verbatim>\<open>is_partial\<close> is still \<^verbatim>\<open>True\<close>.
\<close>

theorem Call_set_kept_on_raise:
  "with_Call_set Call_init [(''is_partial'', PBool True)] (\<lambda>s. (Inl (Exception ''boom''), s))
     = (Inl (Exception ''boom'') :: exc + pyval, Some (Call_init\<lparr>is_partial := PBool True\<rparr>))
   \<and> is_partial (Call_init\<lparr>is_partial := PBool True\<rparr>) \<noteq> is_partial Call_init"
  by (simp add: with_Call_set_def temporary_set_enter_def call_getattr_def call_setattr_def
        Call_init_def)

subsection \<open>Lazy call chains\<close>

lemma replay_append:
  "replay W v (xs @ ys) = (case replay W v xs of Inl e \<Rightarrow> Inl e | Inr v' \<Rightarrow> replay W v' ys)"
  by (induction W v xs rule: replay.induct) (auto split: sum.splits option.splits)

lemma record_single_calls:
  "single_calls ops \<Longrightarrow> record_ops chain ops = Some (chain @ steps_of ops)"
  by (induction ops arbitrary: chain rule: single_calls.induct)
     (auto simp: Lazy_getattribute_def Lazy_dunder_call_def)

lemma replay_steps_of:
  "single_calls ops \<Longrightarrow> replay W v (steps_of ops) = perform W v ops"
  by (induction ops arbitrary: v rule: single_calls.induct) (auto split: sum.splits)

lemma replayable_cases:
  "replayable ops \<Longrightarrow>
   single_calls ops \<or> (\<exists>rest. ops = Invoke [] [] # rest \<and> single_calls rest)"
  by (induction ops rule: replayable.induct) auto

text \<open>
  C2 (as stated).  The claim: for every sequence of attribute accesses and invocations
  recorded on a Lazy value, replaying the chain on a base value gives what the same
  operations give when performed on the base value.  It fails for \<^verbatim>\<open>lazy.f(1)(2)\<close>: the
  second invocation overwrites the arguments of the first, so replay computes
  \<^verbatim>\<open>base.f(2)\<close> and not \<^verbatim>\<open>base.f(1)(2)\<close>.
\<close>

theorem Lazy_replay_differs_counterexample:
  "record_ops [] [Attr ''f'', Invoke [PInt 1] [], Invoke [PInt 2] []]
     = Some [(Some ''f'', Some [PInt 2], Some [])]
   \<and> replay tracing_world (PObj 0) [(Some ''f'', Some [PInt 2], Some [])]
     \<noteq> perform tracing_world (PObj 0) [Attr ''f'', Invoke [PInt 1] [], Invoke [PInt 2] []]"
  by (simp add: Lazy_getattribute_def Lazy_dunder_call_def tracing_world_def)

text \<open>
  C2 (amended).  For every sequence of recorded attribute accesses and invocations in which
  each invocation comes directly after an attribute access, or is a first invocation with no
  arguments, and for every base value, recording succeeds and replaying the recorded chain
  on the base value gives the same result (value or exception) as performing the operations
  on the base value directly.
\<close>

theorem Lazy_replay_equals_direct:
  "replayable ops \<Longrightarrow>
   \<exists>chain. record_ops [] ops = Some chain \<and> replay W base chain = perform W base ops"
proof -
  assume r: "replayable ops"
  from replayable_cases[OF r] show ?thesis
  proof
    assume s: "single_calls ops"
    then show ?thesis
      using record_single_calls[OF s, of "[]"] replay_steps_of[OF s] by simp
  next
    assume "\<exists>rest. ops = Invoke [] [] # rest \<and> single_calls rest"
    then obtain rest where o: "ops = Invoke [] [] # rest" and s: "single_calls rest" by blast
    have rec: "record_ops [] ops = Some ([(None, Some [], Some [])] @ steps_of rest)"
      using o record_single_calls[OF s, of "[(None, Some [], Some [])]"]
      by (simp add: Lazy_dunder_call_def)
    have "replay W base ([(None, Some [], Some [])] @ steps_of rest) = perform W base ops"
      using o replay_steps_of[OF s] by (simp split: sum.splits)
    with rec show ?thesis by blast
  qed
qed

theorem Lazy_replay_equals_direct_witness:
  "replayable [Attr ''upper'', Invoke [] [], Attr ''lower'', Invoke [] []]
   \<and> (\<exists>chain. record_ops [] [Attr ''upper'', Invoke [] [], Attr ''lower'', Invoke [] []] = Some chain
        \<and> replay tracing_world (PStr ''Aa'') chain
          = perform tracing_world (PStr ''Aa'')
              [Attr ''upper'', Invoke [] [], Attr ''lower'', Invoke [] []])"
  using Lazy_replay_equals_direct
    [of "[Attr ''upper'', Invoke [] [], Attr ''lower'', Invoke [] []]" tracing_world "PStr ''Aa''"]
  by simp

text \<open>
  C9.  Two invocations in a row record one call step, which holds the arguments of the last
  invocation only, and replay calls the attribute once, with those arguments.  The arguments
  of an invocation made before any attribute access are recorded, but replay calls the base
  value without arguments.
\<close>

theorem Lazy_call_overwrites:
  "Lazy_dunder_call (Lazy_dunder_call chain a1 k1) a2 k2 = Lazy_dunder_call chain a2 k2
   \<and> length (Lazy_dunder_call (Lazy_dunder_call chain a1 k1) a2 k2)
       = length (Lazy_dunder_call chain a1 k1)
   \<and> Lazy_dunder_call (Lazy_dunder_call (chain @ [(Some name, x, y)]) a1 k1) a2 k2
       = chain @ [(Some name, Some a2, Some k2)]
   \<and> replay W base (Lazy_dunder_call (Lazy_dunder_call (chain @ [(Some name, x, y)]) a1 k1) a2 k2)
       = (case replay W base chain of
            Inl e \<Rightarrow> Inl e
          | Inr v \<Rightarrow> (case py_getattr W v name of
                        Inl e \<Rightarrow> Inl e
                      | Inr f \<Rightarrow> py_call W f a2 k2))
   \<and> Lazy_dunder_call [] a1 k1 = [(None, Some a1, Some k1)]
   \<and> replay W base (Lazy_dunder_call [] a1 k1) = py_call W base [] []"
proof -
  have one: "Lazy_dunder_call (chain @ [(Some name, x, y)]) a k
               = chain @ [(Some name, Some a, Some k)]" for x y a k
    by (simp add: Lazy_dunder_call_def)
  have two: "Lazy_dunder_call (Lazy_dunder_call chain a1 k1) a2 k2 = Lazy_dunder_call chain a2 k2"
  proof (cases chain rule: rev_cases)
    case Nil
    then show ?thesis by (simp add: Lazy_dunder_call_def)
  next
    case (snoc ys st)
    then show ?thesis by (simp add: Lazy_dunder_call_def)
  qed
  have three: "length (Lazy_dunder_call (Lazy_dunder_call chain a1 k1) a2 k2)
                 = length (Lazy_dunder_call chain a1 k1)"
    by (simp add: Lazy_dunder_call_def)
  have four: "replay W base (chain @ [(Some name, Some a2, Some k2)])
       = (case replay W base chain of
            Inl e \<Rightarrow> Inl e
          | Inr v \<Rightarrow> (case py_getattr W v name of
                        Inl e \<Rightarrow> Inl e
                      | Inr f \<Rightarrow> py_call W f a2 k2))"
    by (simp add: replay_append split: sum.splits)
  have five: "replay W base (Lazy_dunder_call [] a1 k1) = py_call W base [] []"
    by (simp add: Lazy_dunder_call_def split: sum.splits)
  show ?thesis
    using one two three four five by (simp add: Lazy_dunder_call_def)
qed

subsection \<open>Signature binding\<close>

lemma bind_keywords_partial: "bind_keywords True ps kws acc \<noteq> Inl (MissingRequired p)"
  by (induction ps arbitrary: acc) (auto split: option.splits)

lemma bind_positional_not_missing: "bind_positional ps args kws acc \<noteq> Inl (MissingRequired p)"
  by (induction ps args kws acc rule: bind_positional.induct) (simp_all add: fun_upd_def)

text \<open>A partial binding never fails for a missing argument.\<close>

lemma parse_args_partial_not_missing:
  "parse_args f args kws extra True \<noteq> Inl (BindError (CannotBind a k n (MissingRequired p)))"
  using bind_keywords_partial bind_positional_not_missing
  by (auto simp: parse_args_def sig_bind_def Let_def split: sum.splits prod.splits)

lemma bind_positional_dom:
  "bind_positional ps args kws acc = Inr (rest, acc') \<Longrightarrow> dom acc' \<subseteq> dom acc \<union> fst ` set ps"
proof (induction ps arbitrary: args acc)
  case Nil
  then show ?case by (cases args) auto
next
  case (Cons p ps)
  obtain name dflt where p: "p = (name, dflt)" by (cases p)
  show ?case
  proof (cases args)
    case Nil
    then show ?thesis using Cons.prems by auto
  next
    case (Cons a args')
    then have "bind_positional ps args' kws (acc(name \<mapsto> a)) = Inr (rest, acc')"
      using Cons.prems p by (simp split: if_splits)
    from Cons.IH[OF this] show ?thesis using p by auto
  qed
qed

lemma bind_keywords_dom:
  "bind_keywords partial ps kws acc = Inr acc' \<Longrightarrow> dom acc' \<subseteq> dom acc \<union> fst ` set ps"
proof (induction ps arbitrary: acc)
  case Nil
  then show ?case by auto
next
  case (Cons p ps)
  obtain name dflt where p: "p = (name, dflt)" by (cases p)
  show ?case
  proof (cases "kws name")
    case None
    then have "bind_keywords partial ps kws acc = Inr acc'"
      using Cons.prems p by (simp split: if_splits)
    from Cons.IH[OF this] show ?thesis by auto
  next
    case (Some v)
    then have "bind_keywords partial ps kws (acc(name \<mapsto> v)) = Inr acc'"
      using Cons.prems p by simp
    from Cons.IH[OF this] show ?thesis using p by auto
  qed
qed

lemma bind_positional_rest:
  "bind_positional ps args kws acc = Inr (rest, acc') \<Longrightarrow> set rest \<subseteq> set ps"
  by (induction ps args kws acc rule: bind_positional.induct)
     (auto simp: fun_upd_def split: if_splits)

lemma apply_defaults_dom:
  "dom (apply_defaults ps acc) \<subseteq> dom acc \<union> fst ` set ps"
proof (induction ps arbitrary: acc)
  case Nil
  then show ?case by simp
next
  case (Cons p ps)
  obtain name dflt where p: "p = (name, dflt)" by (cases p)
  show ?case
  proof (cases "acc name")
    case (Some v)
    then have "apply_defaults (p # ps) acc = apply_defaults ps acc" using p by simp
    then show ?thesis using Cons.IH[of acc] by auto
  next
    case None
    show ?thesis
    proof (cases dflt)
      case None
      then have "apply_defaults (p # ps) acc = apply_defaults ps acc"
        using p \<open>acc name = None\<close> by simp
      then show ?thesis using Cons.IH[of acc] by auto
    next
      case (Some d)
      then have e: "apply_defaults (p # ps) acc = apply_defaults ps (acc(name \<mapsto> d))"
        using p \<open>acc name = None\<close> by simp
      have "dom (apply_defaults ps (acc(name \<mapsto> d))) \<subseteq> dom (acc(name \<mapsto> d)) \<union> fst ` set ps"
        by (rule Cons.IH)
      moreover have "dom (acc(name \<mapsto> d)) = insert name (dom acc)" by simp
      moreover have "fst ` set (p # ps) = insert name (fst ` set ps)" using p by simp
      ultimately show ?thesis unfolding e by blast
    qed
  qed
qed

lemma sig_bind_dom:
  assumes "sig_bind ps partial args kws = Inr bound"
  shows "dom bound \<subseteq> fst ` set ps"
proof -
  from assms obtain rest acc where
    bp: "bind_positional ps args kws Map.empty = Inr (rest, acc)" and
    bk: "bind_keywords partial rest kws acc = Inr bound"
    by (auto simp: sig_bind_def split: sum.splits)
  have 1: "dom acc \<subseteq> fst ` set ps" using bind_positional_dom[OF bp] by simp
  have 2: "fst ` set rest \<subseteq> fst ` set ps" using bind_positional_rest[OF bp] by (rule image_mono)
  have 3: "dom bound \<subseteq> dom acc \<union> fst ` set rest" by (rule bind_keywords_dom[OF bk])
  from 1 2 3 show ?thesis by blast
qed

lemma parse_args_extra_keeps:
  assumes "parse_args f args kws True partial = Inr call_args"
  shows "call_args |` (- set (map fst (fn_params f))) = kws |` (- set (map fst (fn_params f)))"
proof -
  from assms obtain bound where
    sb: "sig_bind (fn_params f) partial args (kws |` set (map fst (fn_params f))) = Inr bound"
    and ca: "call_args = (\<lambda>label. if label \<notin> set (map fst (fn_params f)) \<and> kws label \<noteq> None
                                  then kws label else apply_defaults (fn_params f) bound label)"
    by (auto simp: parse_args_def Let_def split: sum.splits)
  have d: "dom (apply_defaults (fn_params f) bound) \<subseteq> fst ` set (fn_params f)"
    using apply_defaults_dom[of "fn_params f" bound] sig_bind_dom[OF sb] by auto
  show ?thesis
  proof
    fix k
    show "(call_args |` (- set (map fst (fn_params f)))) k = (kws |` (- set (map fst (fn_params f)))) k"
    proof (cases "k \<in> set (map fst (fn_params f))")
      case True
      then show ?thesis by (simp add: restrict_map_def)
    next
      case False
      then have "apply_defaults (fn_params f) bound k = None" using d by auto
      then show ?thesis using False ca by (auto simp: restrict_map_def)
    qed
  qed
qed

subsection \<open>Lazy values\<close>

text \<open>
  C7 (as stated).  The claim: for every name, default and mapping, evaluating
  \<^verbatim>\<open>arg.val(name, default=D)\<close> returns the value bound to the name, else the default, else
  raises \<^verbatim>\<open>BindError\<close>.  It fails for a mapping with the key \<^verbatim>\<open>self\<close>:
  \<^verbatim>\<open>arg.load(arg.val('x', 9), self=1)\<close> does not return the default 9, and
  \<^verbatim>\<open>arg.load(arg.val('self'), self=1)\<close> does not return the bound value 1; both raise the
  \<^verbatim>\<open>TypeError\<close> of \<^verbatim>\<open>lazy._load(**call_args)\<close>.
\<close>

theorem val_load_keyword_clash_counterexample:
  "[''self'' \<mapsto> PInt 1] ''x'' = None
   \<and> load tracing_world None (Lazy (LFunc (val_init ''x'' (Some (PInt 9))))) [''self'' \<mapsto> PInt 1]
       = Inl (TypeError ''_load() got multiple values for argument self'')
   \<and> [''self'' \<mapsto> PInt 1] ''self'' = Some (PInt 1)
   \<and> load tracing_world None (Lazy (LFunc (val_init ''self'' None))) [''self'' \<mapsto> PInt 1]
       = Inl (TypeError ''_load() got multiple values for argument self'')"
  by (simp add: load_def keyword_clash_def)

text \<open>
  C7 (amended).  For every parameter name, optional default and argument mapping without the
  keys \<^verbatim>\<open>lazy\<close> and \<^verbatim>\<open>self\<close>: evaluating \<^verbatim>\<open>arg.val(name, default=D)\<close> against the
  mapping returns the value bound to \<open>name\<close> when the mapping has that key; otherwise it
  returns the default when one was given, and raises the \<^verbatim>\<open>BindError\<close> of \<^verbatim>\<open>_parse_args\<close>
  (missing argument \<open>name\<close>) when none was given.
\<close>

theorem val_load:
  "m ''lazy'' = None \<Longrightarrow> m ''self'' = None \<Longrightarrow>
   load W s (Lazy (LFunc (val_init name d))) m =
     (case m name of
        Some v \<Rightarrow> Inr v
      | None \<Rightarrow>
          (case d of
             Some dv \<Rightarrow> Inr dv
           | None \<Rightarrow> Inl (BindError (CannotBind [] m ''<lambda>'' (MissingRequired name)))))"
  by (simp add: load_def keyword_clash_def val_init_def parse_args_def sig_bind_def
        identity_lambda_def split: option.splits)

theorem val_load_witness:
  "[''arg_name'' \<mapsto> PInt 1] ''lazy'' = None
   \<and> [''arg_name'' \<mapsto> PInt 1] ''self'' = None
   \<and> load tracing_world None (Lazy (LFunc (val_init ''arg_name'' None))) [''arg_name'' \<mapsto> PInt 1]
       = Inr (PInt 1)
   \<and> [''missing_arg'' \<mapsto> PInt 2] ''lazy'' = None
   \<and> [''missing_arg'' \<mapsto> PInt 2] ''self'' = None
   \<and> load tracing_world None (Lazy (LFunc (val_init ''arg_name'' (Some (PInt 1)))))
         [''missing_arg'' \<mapsto> PInt 2]
       = Inr (PInt 1)"
  using val_load[of "[''arg_name'' \<mapsto> PInt 1]" tracing_world None "''arg_name''" None]
    val_load[of "[''missing_arg'' \<mapsto> PInt 2]" tracing_world None "''arg_name''" "Some (PInt 1)"]
  by simp

lemma first_loop_find:
  "first_loop W s cands m =
     map_option (\<lambda>c. Lazy_load W s c m) (find (\<lambda>c. \<not> is_BindError (Lazy_load W s c m)) cands)"
proof (induction cands)
  case Nil
  then show ?case by simp
next
  case (Cons c cands)
  show ?case
  proof (cases "Lazy_load W s c m")
    case (Inl e)
    then show ?thesis using Cons by (cases e) (simp_all del: Lazy_load.simps)
  next
    case (Inr v)
    then show ?thesis by (simp del: Lazy_load.simps)
  qed
qed

text \<open>
  C8.  \<^verbatim>\<open>first._call\<close> returns the outcome of the first candidate, in order, whose
  evaluation does not raise \<^verbatim>\<open>BindError\<close>.  If every candidate raises \<^verbatim>\<open>BindError\<close>, it
  returns the default when one was given and otherwise raises a \<^verbatim>\<open>BindError\<close> whose
  message lists all candidates.  Evaluating a \<^verbatim>\<open>first\<close> object with \<^verbatim>\<open>load\<close> is that call,
  once Python has bound the mapping to \<^verbatim>\<open>**call_args\<close>.
\<close>

theorem first_call_result:
  "Lazy_call W s (LFirst cands d chain) m =
     (case find (\<lambda>c. \<not> is_BindError (Lazy_load W s c m)) cands of
        Some c \<Rightarrow> Lazy_load W s c m
      | None \<Rightarrow>
          (case d of
             Some dv \<Rightarrow> Inr dv
           | None \<Rightarrow> Inl (BindError (NothingInFirst m (map lazy_class_of cands)))))
   \<and> load W s (Lazy (LFirst cands d [])) m =
       (case keyword_clash m of
          Some e \<Rightarrow> Inl e
        | None \<Rightarrow> Lazy_call W s (LFirst cands d []) m)"
proof -
  have a: "Lazy_call W s (LFirst cands d chain) m =
     (case find (\<lambda>c. \<not> is_BindError (Lazy_load W s c m)) cands of
        Some c \<Rightarrow> Lazy_load W s c m
      | None \<Rightarrow>
          (case d of
             Some dv \<Rightarrow> Inr dv
           | None \<Rightarrow> Inl (BindError (NothingInFirst m (map lazy_class_of cands)))))"
    by (simp add: first_loop_find del: Lazy_load.simps split: option.splits)
  have b: "load W s (Lazy (LFirst cands d [])) m =
       (case keyword_clash m of
          Some e \<Rightarrow> Inl e
        | None \<Rightarrow> Lazy_call W s (LFirst cands d []) m)"
    by (simp add: load_def del: Lazy_call.simps split: sum.splits option.splits)
  from a b show ?thesis by blast
qed

subsection \<open>The decorator chain\<close>

text \<open>
  C10.  Constructing a \<^verbatim>\<open>Parametrize\<close> node with no parametrized parameter fails with the
  same \<^verbatim>\<open>AssertionError\<close> as with two or more; it fails when the decorator is applied, and
  with exactly one parameter it yields the node.
\<close>

theorem Parametrize_needs_one:
  "parametrize [] wraps = Inl (AssertionError [])
   \<and> parametrize (p1 # p2 # ps) wraps = Inl (AssertionError [])
   \<and> parametrize [(arg, f)] wraps = Inr (Parametrize arg f wraps)
   \<and> Parametrize_init wraps [] = Parametrize_init wraps (p1 # p2 # ps)"
  by (simp add: parametrize_def Parametrize_init_def)

text \<open>
  C4.  \<^verbatim>\<open>Args.__call__\<close> raises \<^verbatim>\<open>AssertionError\<close> and leaves the slot alone when a call
  is already active.  Otherwise it binds the caller's arguments partially and with extra
  keywords kept (the binding never fails for a missing argument), runs the chain on a fresh
  \<^verbatim>\<open>Call\<close>, and in every case leaves the slot empty.
\<close>

theorem Args_dunder_call_context:
  "Args_dunder_call W self args kws (Some c)
     = (Inl (AssertionError ''Can only call Args class once in chain.''), Some c)
   \<and> snd (Args_dunder_call W self args kws None) = None
   \<and> Args_dunder_call W self args kws None =
       (case parse_args (Args_func self) args kws True True of
          Inl e \<Rightarrow> (Inl e, None)
        | Inr call_args \<Rightarrow>
            (case node_call W self call_args (Some Call_init) of
               (r, s') \<Rightarrow> (if s' = None then Inl (AttributeError ''val'') else r, None)))
   \<and> parse_args (Args_func self) args kws True True
       \<noteq> Inl (BindError (CannotBind a k n (MissingRequired p)))
   \<and> (case parse_args (Args_func self) args kws True True of
         Inl e \<Rightarrow> True
       | Inr call_args \<Rightarrow>
           call_args |` (- set (map fst (fn_params (Args_func self))))
             = kws |` (- set (map fst (fn_params (Args_func self)))))"
proof -
  have 1: "Args_dunder_call W self args kws (Some c)
     = (Inl (AssertionError ''Can only call Args class once in chain.''), Some c)"
    by (simp add: Args_dunder_call_def)
  have 2: "snd (Args_dunder_call W self args kws None) = None"
    by (auto simp: Args_dunder_call_def split: sum.splits prod.splits option.splits)
  have 3: "Args_dunder_call W self args kws None =
       (case parse_args (Args_func self) args kws True True of
          Inl e \<Rightarrow> (Inl e, None)
        | Inr call_args \<Rightarrow>
            (case node_call W self call_args (Some Call_init) of
               (r, s') \<Rightarrow> (if s' = None then Inl (AttributeError ''val'') else r, None)))"
    by (auto simp: Args_dunder_call_def split: sum.splits prod.splits option.splits)
  have 4: "parse_args (Args_func self) args kws True True
       \<noteq> Inl (BindError (CannotBind a k n (MissingRequired p)))"
    by (rule parse_args_partial_not_missing)
  have 5: "(case parse_args (Args_func self) args kws True True of
         Inl e \<Rightarrow> True
       | Inr call_args \<Rightarrow>
           call_args |` (- set (map fst (fn_params (Args_func self))))
             = kws |` (- set (map fst (fn_params (Args_func self)))))"
    using parse_args_extra_keeps[of "Args_func self" args kws True]
    by (simp split: sum.splits)
  from 1 2 3 4 5 show ?thesis by blast
qed

lemma first_missing_exists:
  "(p, None) \<in> set ps \<Longrightarrow> m p = None \<Longrightarrow>
   \<exists>q. first_missing ps m = Some q \<and> (q, None) \<in> set ps \<and> m q = None"
  by (induction ps) auto

lemma first_missing_sound:
  "first_missing ps m = Some q \<Longrightarrow> (q, None) \<in> set ps \<and> m q = None"
  by (induction ps) (auto split: if_splits)

lemma bind_keywords_strict_missing:
  "(\<And>n. n \<in> fst ` set ps \<Longrightarrow> kws n = m n) \<Longrightarrow> first_missing ps m = Some q \<Longrightarrow>
   bind_keywords False ps kws acc = Inl (MissingRequired q)"
proof (induction ps arbitrary: acc)
  case Nil
  then show ?case by simp
next
  case (Cons a ps)
  obtain name dflt where a: "a = (name, dflt)" by (cases a)
  have k: "kws name = m name" using Cons.prems(1)[of name] a by simp
  show ?case
  proof (cases "m name = None \<and> dflt = None")
    case True
    then show ?thesis using Cons.prems(2) a k by simp
  next
    case False
    then have fm: "first_missing ps m = Some q" using Cons.prems(2) a by auto
    have ih: "bind_keywords False ps kws acc' = Inl (MissingRequired q)" for acc'
      using Cons.IH[OF _ fm] Cons.prems(1) by simp
    show ?thesis using False a k ih by (cases "m name") auto
  qed
qed

lemma parse_args_strict_missing:
  assumes "first_missing (fn_params f) m = Some q"
  shows "parse_args f [] m False False = Inl (BindError (CannotBind [] m (fn_name f) (MissingRequired q)))"
proof -
  have "bind_keywords False (fn_params f) (m |` set (map fst (fn_params f))) Map.empty
          = Inl (MissingRequired q)"
    by (rule bind_keywords_strict_missing[OF _ assms]) simp
  then show ?thesis by (simp add: parse_args_def sig_bind_def)
qed

lemma Args_call_target_missing:
  assumes "first_missing (fn_params f) m = Some q" and "\<not> truthy (is_pre_func c)"
  shows "Args_call W (WrapsFunc f) m (Some c)
           = (Inl (BindError (CannotBind [] m (fn_name f) (MissingRequired q))), Some c)"
  using assms parse_args_strict_missing[OF assms(1)]
  by (simp add: Args_call_target_def call_fn_def)

text \<open>
  C6 (as stated).  The claim: for a target with a required parameter \<open>p\<close> that nobody
  supplies, invoking the chain fails with a \<^verbatim>\<open>BindError\<close> that identifies \<open>p\<close>.  For
  \<^verbatim>\<open>def f(q, p)\<close> called without arguments the error reports \<open>q\<close>, not \<open>p\<close>.
\<close>

theorem missing_not_identified_counterexample:
  "(''p'', None) \<in> set (fn_params example_f)
   \<and> missing_argument
        (fst (Args_dunder_call tracing_world (Args (WrapsFunc example_f)) [] Map.empty None))
       \<noteq> Some ''p''"
  by (simp add: Args_dunder_call_def parse_args_def sig_bind_def example_f_def
        Args_call_target_def call_fn_def Call_init_def)

text \<open>
  C6 (amended).  For every target function with a required parameter \<open>p\<close>: when the mapping
  that reaches the terminal node has no value for \<open>p\<close> and the call is not in pre-func
  mode, the node fails with a \<^verbatim>\<open>BindError\<close> that identifies the first required parameter,
  in declaration order, without a value (\<open>p\<close> itself when it is the first), because it binds
  the mapping strictly to the target's signature.  In particular, invoking a chain that
  consists of the target alone fails in this way when the caller's arguments bind partially
  at entry and leave \<open>p\<close> without a value.
\<close>

theorem strict_rebind_at_target:
  assumes "(p, None) \<in> set (fn_params f)"
  shows "(call_args p = None \<and> \<not> truthy (is_pre_func c) \<longrightarrow>
           (\<exists>q. first_missing (fn_params f) call_args = Some q
              \<and> (q, None) \<in> set (fn_params f) \<and> call_args q = None
              \<and> Args_call W (WrapsFunc f) call_args (Some c)
                  = (Inl (BindError (CannotBind [] call_args (fn_name f) (MissingRequired q))),
                     Some c)))
       \<and> (parse_args f args kws True True = Inr bound \<and> bound p = None \<longrightarrow>
           (\<exists>q. first_missing (fn_params f) bound = Some q
              \<and> (q, None) \<in> set (fn_params f) \<and> bound q = None
              \<and> Args_dunder_call W (Args (WrapsFunc f)) args kws None
                  = (Inl (BindError (CannotBind [] bound (fn_name f) (MissingRequired q))),
                     None)))"
proof (intro conjI impI)
  assume h: "call_args p = None \<and> \<not> truthy (is_pre_func c)"
  then have h1: "call_args p = None" and h2: "\<not> truthy (is_pre_func c)" by simp_all
  from first_missing_exists[of p "fn_params f" call_args] assms h1 obtain q where
    q: "first_missing (fn_params f) call_args = Some q" "(q, None) \<in> set (fn_params f)"
       "call_args q = None" by auto
  from Args_call_target_missing[OF q(1) h2, of W] q
  show "\<exists>q. first_missing (fn_params f) call_args = Some q
              \<and> (q, None) \<in> set (fn_params f) \<and> call_args q = None
              \<and> Args_call W (WrapsFunc f) call_args (Some c)
                  = (Inl (BindError (CannotBind [] call_args (fn_name f) (MissingRequired q))),
                     Some c)" by blast
next
  assume h: "parse_args f args kws True True = Inr bound \<and> bound p = None"
  then have h1: "bound p = None" by simp
  from first_missing_exists[of p "fn_params f" bound] assms h1 obtain q where
    q: "first_missing (fn_params f) bound = Some q" "(q, None) \<in> set (fn_params f)"
       "bound q = None" by auto
  have "\<not> truthy (is_pre_func Call_init)" by (simp add: Call_init_def)
  from Args_call_target_missing[OF q(1) this, of W]
  have "Args_dunder_call W (Args (WrapsFunc f)) args kws None
          = (Inl (BindError (CannotBind [] bound (fn_name f) (MissingRequired q))), None)"
    using h by (simp add: Args_dunder_call_def)
  with q show "\<exists>q. first_missing (fn_params f) bound = Some q
              \<and> (q, None) \<in> set (fn_params f) \<and> bound q = None
              \<and> Args_dunder_call W (Args (WrapsFunc f)) args kws None
                  = (Inl (BindError (CannotBind [] bound (fn_name f) (MissingRequired q))),
                     None)" by blast
qed


theorem strict_rebind_at_target_witness:
  "(''p'', None) \<in> set (fn_params example_f)
   \<and> ([''q'' \<mapsto> PInt 1] ''p'' = None \<and> \<not> truthy (is_pre_func Call_init))
   \<and> (parse_args example_f [PInt 1] Map.empty True True = Inr [''q'' \<mapsto> PInt 1]
        \<and> [''q'' \<mapsto> PInt 1] ''p'' = None)
   \<and> first_missing (fn_params example_f) [''q'' \<mapsto> PInt 1] = Some ''p''
   \<and> (\<exists>q. Args_call tracing_world (WrapsFunc example_f) [''q'' \<mapsto> PInt 1] (Some Call_init)
             = (Inl (BindError (CannotBind [] [''q'' \<mapsto> PInt 1] (fn_name example_f)
                                  (MissingRequired q))), Some Call_init))
   \<and> (\<exists>q. Args_dunder_call tracing_world (Args (WrapsFunc example_f)) [PInt 1] Map.empty None
             = (Inl (BindError (CannotBind [] [''q'' \<mapsto> PInt 1] (fn_name example_f)
                                  (MissingRequired q))), None))"
proof -
  have h0: "(''p'', None) \<in> set (fn_params example_f)" by (simp add: example_f_def)
  have h1: "[''q'' \<mapsto> PInt 1] ''p'' = None \<and> \<not> truthy (is_pre_func Call_init)"
    by (simp add: Call_init_def)
  have h2: "parse_args example_f [PInt 1] Map.empty True True = Inr [''q'' \<mapsto> PInt 1]
            \<and> [''q'' \<mapsto> PInt 1] ''p'' = None"
    by (auto simp: parse_args_def sig_bind_def example_f_def fun_eq_iff)
  have h3: "first_missing (fn_params example_f) [''q'' \<mapsto> PInt 1] = Some ''p''"
    by (simp add: example_f_def)
  note t = strict_rebind_at_target[OF h0, of "[''q'' \<mapsto> PInt 1]" Call_init tracing_world
             "[PInt 1]" Map.empty "[''q'' \<mapsto> PInt 1]"]
  from t h0 h1 h2 h3 show ?thesis by blast
qed

subsection \<open>Parametrize\<close>

lemma with_Call_set_parametrize:
  "with_Call_set c
     [(''parametrize_arg'', PStr arg), (''parametrize_arg_val'', v),
      (''parametrize_arg_vals'', vals), (''parametrize_arg_index'', PInt (int i))] body =
   (case body (Some (reporting c arg v vals i)) of
      (Inr r, s2) \<Rightarrow> (Inr r, map_option (\<lambda>c2. written_back c2 c) s2)
    | (Inl e, s2) \<Rightarrow> (Inl e, s2))"
proof -
  have enter: "temporary_set_enter c
     [(''parametrize_arg'', PStr arg), (''parametrize_arg_val'', v),
      (''parametrize_arg_vals'', vals), (''parametrize_arg_index'', PInt (int i))]
     = Inr (reporting c arg v vals i,
            [(''parametrize_arg'', parametrize_arg c), (''parametrize_arg_val'', parametrize_arg_val c),
             (''parametrize_arg_vals'', parametrize_arg_vals c),
             (''parametrize_arg_index'', parametrize_arg_index c)])"
    by (simp add: temporary_set_enter_def call_getattr_def call_setattr_def reporting_def)
  have resume: "temporary_set_resume c2
            [(''parametrize_arg'', parametrize_arg c), (''parametrize_arg_val'', parametrize_arg_val c),
             (''parametrize_arg_vals'', parametrize_arg_vals c),
             (''parametrize_arg_index'', parametrize_arg_index c)] = written_back c2 c" for c2
    by (simp add: temporary_set_resume_def call_setattr_def written_back_def)
  show ?thesis
    unfolding with_Call_set_def enter by (simp add: resume split: prod.splits sum.splits)
qed

lemma parametrize_loop_results:
  "(\<And>k. k < length vs \<Longrightarrow>
       inner (call_args(arg \<mapsto> vs ! k)) (Some (reporting (cs k) arg (vs ! k) arg_vals (i + k)))
         = (Inr (rs k), Some (cs' k))) \<Longrightarrow>
   (\<And>k. k < length vs \<Longrightarrow> cs (Suc k) = written_back (cs' k) (cs k)) \<Longrightarrow>
   parametrize_loop inner arg arg_vals call_args i vs results (Some (cs 0))
     = (Inr (results @ map rs [0..<length vs]), Some (cs (length vs)))"
proof (induction vs arbitrary: i results cs cs' rs)
  case Nil
  then show ?case by simp
next
  case (Cons v vs)
  have first: "inner (call_args(arg \<mapsto> v)) (Some (reporting (cs 0) arg v arg_vals i))
                 = (Inr (rs 0), Some (cs' 0))"
    using Cons.prems(1)[of 0] by (simp add: fun_upd_def)
  have next_call: "cs (Suc 0) = written_back (cs' 0) (cs 0)"
    using Cons.prems(2)[of 0] by simp
  have step: "parametrize_loop inner arg arg_vals call_args i (v # vs) results (Some (cs 0))
      = parametrize_loop inner arg arg_vals call_args (Suc i) vs (results @ [rs 0]) (Some (cs (Suc 0)))"
    by (simp add: call_fn_def with_Call_set_parametrize first next_call)
  have ih: "parametrize_loop inner arg arg_vals call_args (Suc i) vs (results @ [rs 0])
              (Some ((\<lambda>k. cs (Suc k)) 0))
        = (Inr ((results @ [rs 0]) @ map (\<lambda>k. rs (Suc k)) [0..<length vs]),
           Some ((\<lambda>k. cs (Suc k)) (length vs)))"
  proof (rule Cons.IH[where cs' = "\<lambda>k. cs' (Suc k)"])
    fix k assume "k < length vs"
    then show "inner (call_args(arg \<mapsto> vs ! k))
            (Some (reporting (cs (Suc k)) arg (vs ! k) arg_vals (Suc i + k)))
          = (Inr (rs (Suc k)), Some (cs' (Suc k)))"
      using Cons.prems(1)[of "Suc k"] by (simp add: fun_upd_def)
  next
    fix k assume "k < length vs"
    then show "cs (Suc (Suc k)) = written_back (cs' (Suc k)) (cs (Suc k))"
      using Cons.prems(2)[of "Suc k"] by simp
  qed
  have m: "map rs [0..<length (v # vs)] = rs 0 # map (\<lambda>k. rs (Suc k)) [0..<length vs]"
    by (simp add: upt_rec[of 0] map_Suc_upt[symmetric] del: upt_Suc)
  show ?case using step ih m by simp
qed

text \<open>
  C3.  Let the parametrization function evaluate to \<open>arg_vals\<close>, whose iteration gives the
  values \<open>vs\<close>.  The node makes one inner call per value, in order: the \<open>k\<close>-th with the
  parametrized argument overridden by \<open>vs ! k\<close> and on a \<^verbatim>\<open>Call\<close> whose parametrization
  fields report the argument name, \<open>vs ! k\<close>, the whole sequence \<open>arg_vals\<close> and the index
  \<open>k\<close>.  When these inner calls return \<open>rs 0\<close>, \<open>rs 1\<close>, ..., the node returns the list of
  these results in the same order.  (\<open>cs k\<close> is the \<^verbatim>\<open>Call\<close> before the \<open>k\<close>-th inner call
  and \<open>cs' k\<close> the one it leaves; the four fields are written back after each inner call.)
  Nothing is assumed of \<open>inner\<close> elsewhere, so these are the only inner calls that matter.
\<close>

theorem Parametrize_call_results:
  assumes "load W (Some (cs 0)) parametrize_func call_args = Inr arg_vals"
    and "iterate W arg_vals = Inr vs"
    and "\<forall>k<length vs.
           inner (call_args(arg \<mapsto> vs ! k)) (Some (reporting (cs k) arg (vs ! k) arg_vals k))
             = (Inr (rs k), Some (cs' k))"
    and "\<forall>k<length vs. cs (Suc k) = written_back (cs' k) (cs k)"
  shows "Parametrize_call W arg parametrize_func inner call_args (Some (cs 0))
           = (Inr (PList (map rs [0..<length vs])), Some (cs (length vs)))"
proof -
  have "parametrize_loop inner arg arg_vals call_args 0 vs [] (Some (cs 0))
          = (Inr ([] @ map rs [0..<length vs]), Some (cs (length vs)))"
    by (rule parametrize_loop_results) (use assms(3,4) in simp_all)
  then show ?thesis
    using assms(1,2)
    by (simp add: Parametrize_call_def suppress_bind_errors_in_partial_call_def)
qed

lemma example_double_call:
  "Args_call_target example_double (m(''val'' \<mapsto> PInt n)) (Some c)
     = (if truthy (is_pre_func c) then Inr PNone else Inr (PInt (n * 2)), Some c)"
  by (simp add: Args_call_target_def call_fn_def parse_args_def sig_bind_def example_double_def)

theorem Parametrize_call_results_witness:
  "load tracing_world (Some Call_init) (Lazy (LFunc (val_init ''vals'' None)))
       [''vals'' \<mapsto> PList [PInt 1, PInt 2, PInt 3]] = Inr (PList [PInt 1, PInt 2, PInt 3])
   \<and> iterate tracing_world (PList [PInt 1, PInt 2, PInt 3]) = Inr [PInt 1, PInt 2, PInt 3]
   \<and> Args_call tracing_world (WrapsFunc example_double)
         [''vals'' \<mapsto> PList [PInt 1, PInt 2, PInt 3], ''val'' \<mapsto> PInt 1]
         (Some (reporting Call_init ''val'' (PInt 1) (PList [PInt 1, PInt 2, PInt 3]) 0))
       = (Inr (PInt 2),
          Some (reporting Call_init ''val'' (PInt 1) (PList [PInt 1, PInt 2, PInt 3]) 0))
   \<and> Args_call tracing_world (WrapsFunc example_double)
         [''vals'' \<mapsto> PList [PInt 1, PInt 2, PInt 3], ''val'' \<mapsto> PInt 2]
         (Some (reporting Call_init ''val'' (PInt 2) (PList [PInt 1, PInt 2, PInt 3]) 1))
       = (Inr (PInt 4),
          Some (reporting Call_init ''val'' (PInt 2) (PList [PInt 1, PInt 2, PInt 3]) 1))
   \<and> Args_call tracing_world (WrapsFunc example_double)
         [''vals'' \<mapsto> PList [PInt 1, PInt 2, PInt 3], ''val'' \<mapsto> PInt 3]
         (Some (reporting Call_init ''val'' (PInt 3) (PList [PInt 1, PInt 2, PInt 3]) 2))
       = (Inr (PInt 6),
          Some (reporting Call_init ''val'' (PInt 3) (PList [PInt 1, PInt 2, PInt 3]) 2))
   \<and> written_back (reporting Call_init ''val'' (PInt 1) (PList [PInt 1, PInt 2, PInt 3]) 0)
         Call_init = Call_init
   \<and> written_back (reporting Call_init ''val'' (PInt 2) (PList [PInt 1, PInt 2, PInt 3]) 1)
         Call_init = Call_init
   \<and> written_back (reporting Call_init ''val'' (PInt 3) (PList [PInt 1, PInt 2, PInt 3]) 2)
         Call_init = Call_init
   \<and> Parametrize_call tracing_world ''val'' (Lazy (LFunc (val_init ''vals'' None)))
        (Args_call tracing_world (WrapsFunc example_double))
        [''vals'' \<mapsto> PList [PInt 1, PInt 2, PInt 3]] (Some Call_init)
       = (Inr (PList [PInt 2, PInt 4, PInt 6]), Some Call_init)"
proof -
  let ?vs = "[PInt 1, PInt 2, PInt 3]"
  let ?m = "[''vals'' \<mapsto> PList ?vs]"
  let ?cs' = "\<lambda>k. reporting Call_init ''val'' (?vs ! k) (PList ?vs) k"
  let ?rs = "\<lambda>k. [PInt 2, PInt 4, PInt 6] ! k"
  have h1: "load tracing_world (Some ((\<lambda>k. Call_init) 0)) (Lazy (LFunc (val_init ''vals'' None))) ?m
              = Inr (PList ?vs)"
    by (simp add: load_def keyword_clash_def val_init_def parse_args_def sig_bind_def
          identity_lambda_def)
  have h2: "iterate tracing_world (PList ?vs) = Inr ?vs" by simp
  have pre: "\<not> truthy (is_pre_func (reporting Call_init a v vs k))" for a v vs k
    by (simp add: reporting_def Call_init_def)
  have h3: "\<forall>k<length ?vs.
         Args_call tracing_world (WrapsFunc example_double) (?m(''val'' \<mapsto> ?vs ! k))
           (Some (reporting ((\<lambda>k. Call_init) k) ''val'' (?vs ! k) (PList ?vs) k))
         = (Inr (?rs k), Some (?cs' k))"
    using pre by (auto simp: less_Suc_eq example_double_call)
  have h4: "\<forall>k<length ?vs. (\<lambda>k. Call_init) (Suc k) = written_back (?cs' k) ((\<lambda>k. Call_init) k)"
    by (simp add: written_back_def reporting_def Call_init_def)
  have "map ?rs [0..<length ?vs] = [PInt 2, PInt 4, PInt 6]"
    by (simp add: upt_rec)
  with Parametrize_call_results[OF h1 h2 h3 h4]
  have c: "Parametrize_call tracing_world ''val'' (Lazy (LFunc (val_init ''vals'' None)))
        (Args_call tracing_world (WrapsFunc example_double)) ?m (Some Call_init)
       = (Inr (PList [PInt 2, PInt 4, PInt 6]), Some Call_init)"
    by (simp add: fun_upd_def)
  have w: "written_back (reporting Call_init a v vals k) Call_init = Call_init" for a v vals k
    by (simp add: written_back_def reporting_def Call_init_def)
  from h1 h2 c pre show ?thesis by (simp add: example_double_call w)
qed

text \<open>
  The example of the documentation: \<^verbatim>\<open>double(vals=[1, 2, 3]) == [2, 4, 6]\<close> for
  \<^verbatim>\<open>@arg.parametrize(val=arg.val('vals'))\<close> on \<^verbatim>\<open>double\<close>.
\<close>

lemma parametrize_double_example:
  "Args_dunder_call tracing_world
     (Parametrize ''val'' (Lazy (LFunc (val_init ''vals'' None))) (WrapsFunc example_double))
     [] [''vals'' \<mapsto> PList [PInt 1, PInt 2, PInt 3]] None
   = (Inr (PList [PInt 2, PInt 4, PInt 6]), None)"
proof -
  let ?vs = "[PInt 1, PInt 2, PInt 3]"
  let ?m = "[''vals'' \<mapsto> PList ?vs]"
  have b: "parse_args example_double [] ?m True True = Inr ?m"
    by (auto simp: parse_args_def sig_bind_def example_double_def fun_eq_iff)
  have pre: "\<not> truthy (is_pre_func (reporting Call_init a v vs k))" for a v vs k
    by (simp add: reporting_def Call_init_def)
  have l: "load tracing_world s (Lazy (LFunc (val_init ''vals'' None))) ?m
              = Inr (PList ?vs)" for s
    by (simp add: load_def keyword_clash_def val_init_def parse_args_def sig_bind_def
          identity_lambda_def)
  have w: "written_back (reporting Call_init a v vs k) Call_init = Call_init" for a v vs k
    by (simp add: written_back_def reporting_def Call_init_def)
  have "Parametrize_call tracing_world ''val'' (Lazy (LFunc (val_init ''vals'' None)))
        (Args_call tracing_world (WrapsFunc example_double)) ?m (Some Call_init)
       = (Inr (PList [PInt 2, PInt 4, PInt 6]), Some Call_init)"
    by (simp add: Parametrize_call_def l call_fn_def with_Call_set_def temporary_set_enter_def
          temporary_set_resume_def call_getattr_def call_setattr_def Call_init_def
          example_double_call suppress_bind_errors_in_partial_call_def)
  then show ?thesis
    using b by (simp add: Args_dunder_call_def)
qed

text \<open>
  In partial mode, a \<^verbatim>\<open>BindError\<close> of the inner call for the first value is swallowed
  and the node delegates inward with the unchanged mapping.  The scope of \<^verbatim>\<open>Call.set\<close>
  was left by an exception, so the delegated call runs on the \<^verbatim>\<open>Call\<close> as the failed inner
  call left it, with the parametrization fields not written back.
\<close>

lemma Parametrize_call_inner_BindError_swallowed:
  assumes "load W (Some c) parametrize_func call_args = Inr arg_vals"
    and "iterate W arg_vals = Inr (v # vs)"
    and "inner (call_args(arg \<mapsto> v)) (Some (reporting c arg v arg_vals 0))
           = (Inl (BindError b), Some c2)"
    and "truthy (is_partial c2)"
  shows "Parametrize_call W arg parametrize_func inner call_args (Some c)
           = inner call_args (Some c2)"
  using assms
  by (simp add: Parametrize_call_def call_fn_def with_Call_set_parametrize[where i = 0, simplified]
        suppress_bind_errors_in_partial_call_def)

subsection \<open>Binding errors in partial mode\<close>

lemma guard_BindError:
  "suppress_bind_errors_in_partial_call (Some c) (Inl (BindError b)) =
     (if truthy (is_partial c) then Swallowed else Raised (BindError b))"
  by (simp add: suppress_bind_errors_in_partial_call_def call_fn_def)

lemma validators_loop_append:
  "validators_loop W s (xs @ ys) kws =
     (case validators_loop W s xs kws of
        Some e \<Rightarrow> Some e
      | None \<Rightarrow> validators_loop W s ys kws)"
  by (induction xs) (auto split: guarded.splits)

lemma defaults_loop_append:
  "defaults_loop W s (xs @ ys) call_args da =
     (case defaults_loop W s xs call_args da of
        Inl e \<Rightarrow> Inl e
      | Inr da' \<Rightarrow> defaults_loop W s ys call_args da')"
proof (induction xs arbitrary: da)
  case Nil
  then show ?case by simp
next
  case (Cons x xs)
  obtain label f where x: "x = (label, f)" by (cases x)
  show ?case unfolding x using Cons.IH by (simp add: fun_upd_def split: guarded.splits)
qed

lemma contexts_loop_append:
  "contexts_loop W (xs @ ys) call_args xa stack s =
     (case contexts_loop W xs call_args xa stack s of
        (Some e, r) \<Rightarrow> (Some e, r)
      | (None, xa', stack', s') \<Rightarrow> contexts_loop W ys call_args xa' stack' s')"
proof (induction xs arbitrary: xa stack s)
  case Nil
  then show ?case by simp
next
  case (Cons x xs)
  obtain key f where x: "x = (key, f)" by (cases x)
  show ?case unfolding x using Cons.IH
    by (simp add: fun_upd_def split: guarded.splits sum.splits prod.splits ctx_key.splits)
qed

lemma leave_ExitStack_empty: "leave_ExitStack W [] (Inl e) s = (Inl e, s)"
  by (simp add: leave_ExitStack_def ExitStack_exit_def)

text \<open>
  C5.  Let a configured function of a validators, defaults or contexts node raise
  \<^verbatim>\<open>BindError\<close> when it is evaluated (the functions before it in the node having been
  evaluated, skipped or entered without an exception), and let \<open>c\<close> be the \<^verbatim>\<open>Call\<close> at that
  moment.  If \<open>is_partial\<close> is set in \<open>c\<close>, the node behaves as if that function were not
  configured.  If it is not set, the guard raises the same \<^verbatim>\<open>BindError\<close>: it is the
  outcome of a validators or defaults node, and in a contexts node it is the exception with
  which the contexts entered so far are left (the outcome of the node when there are none).
\<close>

theorem bind_errors_in_partial_call:
  "(validators_loop W (Some c) pre kws = None \<and> load W (Some c) f kws = Inl (BindError b) \<longrightarrow>
      Validators_call W (pre @ f # post) inner kws (Some c) =
        (if truthy (is_partial c) then Validators_call W (pre @ post) inner kws (Some c)
         else (Inl (BindError b), Some c)))
   \<and> (defaults_loop W (Some c) dpre call_args Map.empty = Inr da
        \<and> load W (Some c) f (call_args ++ da) = Inl (BindError b) \<longrightarrow>
      Defaults_call W (dpre @ (label, f) # dpost) inner call_args (Some c) =
        (if truthy (is_partial c) then Defaults_call W (dpre @ dpost) inner call_args (Some c)
         else (Inl (BindError b), Some c)))
   \<and> (contexts_loop W cpre call_args Map.empty [] s = (None, xa, stack, Some c)
        \<and> load W (Some c) f (call_args ++ xa) = Inl (BindError b) \<longrightarrow>
      Contexts_call W (cpre @ (key, f) # cpost) inner call_args s =
        (if truthy (is_partial c) then Contexts_call W (cpre @ cpost) inner call_args s
         else leave_ExitStack W stack (Inl (BindError b)) (Some c)))
   \<and> leave_ExitStack W [] (Inl (BindError b)) (Some c) = (Inl (BindError b), Some c)
   \<and> suppress_bind_errors_in_partial_call (Some c) (Inl (BindError b) :: exc + pyval) =
        (if truthy (is_partial c) then Swallowed else Raised (BindError b))"
proof (intro conjI impI)
  assume h: "validators_loop W (Some c) pre kws = None \<and> load W (Some c) f kws = Inl (BindError b)"
  then show "Validators_call W (pre @ f # post) inner kws (Some c) =
        (if truthy (is_partial c) then Validators_call W (pre @ post) inner kws (Some c)
         else (Inl (BindError b), Some c))"
    by (simp add: Validators_call_def validators_loop_append guard_BindError)
next
  assume h: "defaults_loop W (Some c) dpre call_args Map.empty = Inr da
        \<and> load W (Some c) f (call_args ++ da) = Inl (BindError b)"
  then show "Defaults_call W (dpre @ (label, f) # dpost) inner call_args (Some c) =
        (if truthy (is_partial c) then Defaults_call W (dpre @ dpost) inner call_args (Some c)
         else (Inl (BindError b), Some c))"
    by (simp add: Defaults_call_def defaults_loop_append guard_BindError)
next
  assume h: "contexts_loop W cpre call_args Map.empty [] s = (None, xa, stack, Some c)
        \<and> load W (Some c) f (call_args ++ xa) = Inl (BindError b)"
  then show "Contexts_call W (cpre @ (key, f) # cpost) inner call_args s =
        (if truthy (is_partial c) then Contexts_call W (cpre @ cpost) inner call_args s
         else leave_ExitStack W stack (Inl (BindError b)) (Some c))"
    by (simp add: Contexts_call_def contexts_loop_append guard_BindError)
next
  show "leave_ExitStack W [] (Inl (BindError b)) (Some c) = (Inl (BindError b), Some c)"
    by (rule leave_ExitStack_empty)
next
  show "suppress_bind_errors_in_partial_call (Some c) (Inl (BindError b) :: exc + pyval) =
        (if truthy (is_partial c) then Swallowed else Raised (BindError b))"
    by (rule guard_BindError)
qed

lemma example_check_load:
  "load W s (Plain example_check) Map.empty
     = Inl (BindError (CannotBind [] Map.empty ''check'' (MissingRequired ''x'')))"
  by (simp add: load_def keyword_clash_def func_init_def parse_args_def sig_bind_def
        example_check_def)

theorem bind_errors_in_partial_call_witness:
  "validators_loop tracing_world (Some (Call_init\<lparr>is_partial := PBool True\<rparr>)) [] Map.empty = None
   \<and> load tracing_world (Some (Call_init\<lparr>is_partial := PBool True\<rparr>)) (Plain example_check)
         Map.empty
       = Inl (BindError (CannotBind [] Map.empty ''check'' (MissingRequired ''x'')))
   \<and> Validators_call tracing_world [Plain example_check]
         (Args_call tracing_world (WrapsFunc example_double)) Map.empty
         (Some (Call_init\<lparr>is_partial := PBool True\<rparr>))
       = Validators_call tracing_world []
           (Args_call tracing_world (WrapsFunc example_double)) Map.empty
           (Some (Call_init\<lparr>is_partial := PBool True\<rparr>))
   \<and> defaults_loop tracing_world (Some (Call_init\<lparr>is_partial := PBool True\<rparr>)) []
         Map.empty Map.empty = Inr Map.empty
   \<and> Defaults_call tracing_world [(''val'', Plain example_check)]
         (Args_call tracing_world (WrapsFunc example_double)) Map.empty
         (Some (Call_init\<lparr>is_partial := PBool True\<rparr>))
       = Defaults_call tracing_world []
           (Args_call tracing_world (WrapsFunc example_double)) Map.empty
           (Some (Call_init\<lparr>is_partial := PBool True\<rparr>))
   \<and> contexts_loop tracing_world [] Map.empty Map.empty []
         (Some (Call_init\<lparr>is_partial := PBool True\<rparr>))
       = (None, Map.empty, [], Some (Call_init\<lparr>is_partial := PBool True\<rparr>))
   \<and> Contexts_call tracing_world [(Unnamed, Plain example_check)]
         (Args_call tracing_world (WrapsFunc example_double)) Map.empty
         (Some (Call_init\<lparr>is_partial := PBool True\<rparr>))
       = Contexts_call tracing_world []
           (Args_call tracing_world (WrapsFunc example_double)) Map.empty
           (Some (Call_init\<lparr>is_partial := PBool True\<rparr>))
   \<and> Validators_call tracing_world [Plain example_check]
         (Args_call tracing_world (WrapsFunc example_double)) Map.empty (Some Call_init)
       = (Inl (BindError (CannotBind [] Map.empty ''check'' (MissingRequired ''x''))),
          Some Call_init)"
proof -
  let ?cp = "Call_init\<lparr>is_partial := PBool True\<rparr>"
  let ?b = "CannotBind [] Map.empty ''check'' (MissingRequired ''x'')"
  let ?inner = "Args_call tracing_world (WrapsFunc example_double)"
  have p: "truthy (is_partial ?cp)" "\<not> truthy (is_partial Call_init)"
    by (simp_all add: Call_init_def)
  have v: "validators_loop tracing_world s [] Map.empty = None" for s by simp
  have d: "defaults_loop tracing_world s [] Map.empty Map.empty = Inr Map.empty" for s
    by simp
  have x: "contexts_loop tracing_world [] Map.empty Map.empty [] s = (None, Map.empty, [], s)"
    for s by simp
  have l: "load tracing_world s (Plain example_check) (Map.empty ++ Map.empty) = Inl (BindError ?b)"
    for s by (simp add: example_check_load)
  note t1 = bind_errors_in_partial_call
    [where W = tracing_world and c = ?cp and pre = "[]" and kws = Map.empty
       and f = "Plain example_check" and b = ?b and post = "[]" and inner = ?inner
       and dpre = "[]" and call_args = Map.empty and da = Map.empty and label = "''val''"
       and dpost = "[]" and cpre = "[]" and s = "Some ?cp" and xa = Map.empty
       and stack = "[]" and key = Unnamed and cpost = "[]"]
  note t2 = bind_errors_in_partial_call
    [where W = tracing_world and c = Call_init and pre = "[]" and kws = Map.empty
       and f = "Plain example_check" and b = ?b and post = "[]" and inner = ?inner]
  from t1 t2 p v d x l show ?thesis
    by (simp add: example_check_load del: validators_loop.simps defaults_loop.simps
          contexts_loop.simps)
qed

end
